theory Spec2Isabelle
  imports Complex_Main "HOL-Library.Char_ord" "HOL-Library.List_Lexorder"
begin

section \<open>The values of the decoded JSON\<close>

text \<open>
  \<^verbatim>\<open>scrape.py\<close> works on whatever \<^verbatim>\<open>resp.json()\<close> hands it: dictionaries whose
  values are of any JSON type. The embedding keeps that dynamic typing. A Python value is a
  \<open>json\<close>; an operation that raises for some types returns \<open>Inl\<close> of the exception.

  A \<^verbatim>\<open>str\<close> is the list of its characters (of its UTF-8 bytes, for text beyond ASCII:
  the separators \<^verbatim>\<open>"-"\<close>, \<^verbatim>\<open>"/"\<close> and the marker \<^verbatim>\<open>"_p"\<close> searched for are
  ASCII, and no byte of a longer UTF-8 sequence is an ASCII byte). A finite \<^verbatim>\<open>float\<close> is
  the rational number it stands for (no sign of zero). A \<^verbatim>\<open>dict\<close> is the list of its
  items in insertion order, each key once.
\<close>

datatype pyfloat = Finite rat | PosInf | NegInf | NaN

datatype json =
    JNull
  | JBool bool
  | JInt int
  | JFloat pyfloat
  | JStr string
  | JList "json list"
  | JDict "(string \<times> json) list"

datatype error = ValueError | TypeError | OverflowError | AttributeError

text \<open>Sequencing: an exception ends the computation, a value goes on to the next step.\<close>

definition and_then :: "error + 'a \<Rightarrow> ('a \<Rightarrow> error + 'b) \<Rightarrow> error + 'b" where
  "and_then r f = (case r of Inl e \<Rightarrow> Inl e | Inr x \<Rightarrow> f x)"

text \<open>Truth value testing: \<^verbatim>\<open>if x\<close>, \<^verbatim>\<open>not x\<close>, \<^verbatim>\<open>x or y\<close>.\<close>

fun truthy :: "json \<Rightarrow> bool" where
  "truthy JNull = False"
| "truthy (JBool b) = b"
| "truthy (JInt n) = (n \<noteq> 0)"
| "truthy (JFloat f) = (f \<noteq> Finite 0)"
| "truthy (JStr s) = (s \<noteq> [])"
| "truthy (JList xs) = (xs \<noteq> [])"
| "truthy (JDict kvs) = (kvs \<noteq> [])"

definition py_or :: "json \<Rightarrow> json \<Rightarrow> json" where
  "py_or a b = (if truthy a then a else b)"

text \<open>\<^verbatim>\<open>d.get(key, default)\<close> on a dictionary.\<close>

definition dict_get :: "(string \<times> json) list \<Rightarrow> string \<Rightarrow> json \<Rightarrow> json" where
  "dict_get d k dflt = (case map_of d k of None \<Rightarrow> dflt | Some v \<Rightarrow> v)"

text \<open>
  \<^verbatim>\<open>needle in x\<close> for a string \<open>needle\<close>: a substring test on a \<^verbatim>\<open>str\<close>, membership
  in a list, a key test on a dictionary, and a \<^verbatim>\<open>TypeError\<close> on every other value.
\<close>

definition starts_with :: "string \<Rightarrow> string \<Rightarrow> bool" where
  "starts_with p s = (take (length p) s = p)"

fun is_substring :: "string \<Rightarrow> string \<Rightarrow> bool" where
  "is_substring p [] = (p = [])"
| "is_substring p (c # cs) = (starts_with p (c # cs) \<or> is_substring p cs)"

fun py_in :: "string \<Rightarrow> json \<Rightarrow> error + bool" where
  "py_in needle (JStr s) = Inr (is_substring needle s)"
| "py_in needle (JList xs) = Inr (JStr needle \<in> set xs)"
| "py_in needle (JDict kvs) = Inr (needle \<in> set (map fst kvs))"
| "py_in needle JNull = Inl TypeError"
| "py_in needle (JBool b) = Inl TypeError"
| "py_in needle (JInt n) = Inl TypeError"
| "py_in needle (JFloat f) = Inl TypeError"

text \<open>
  Hashing and the equality of keys, for \<^verbatim>\<open>cid not in seen\<close> and for dictionary keys.
  Lists and dictionaries are unhashable. \<^verbatim>\<open>True\<close>, \<^verbatim>\<open>1\<close> and \<^verbatim>\<open>1.0\<close> are one key;
  the decoder's \<^verbatim>\<open>NaN\<close> is one object, found again by identity.
\<close>

fun hashable :: "json \<Rightarrow> bool" where
  "hashable (JList xs) = False"
| "hashable (JDict kvs) = False"
| "hashable v = True"

fun number_of :: "json \<Rightarrow> pyfloat option" where
  "number_of (JBool b) = Some (Finite (if b then 1 else 0))"
| "number_of (JInt n) = Some (Finite (of_int n))"
| "number_of (JFloat f) = Some f"
| "number_of v = None"

definition key_eq :: "json \<Rightarrow> json \<Rightarrow> bool" where
  "key_eq a b =
     (case number_of a of
        Some x \<Rightarrow> (case number_of b of Some y \<Rightarrow> x = y | None \<Rightarrow> False)
      | None \<Rightarrow> (case number_of b of Some y \<Rightarrow> False | None \<Rightarrow> a = b))"

subsection \<open>The built-ins \<^verbatim>\<open>int\<close> and \<^verbatim>\<open>str\<close>\<close>

text \<open>
  \<^verbatim>\<open>int(s)\<close> of a string of ASCII characters. The white space \<^verbatim>\<open>"\t\n\v\f\r "\<close> is
  skipped at both ends (the separators 0x1C to 0x1F, which \<^verbatim>\<open>str.strip\<close> takes as
  well, are not), one sign may lead, and the rest is decimal digits, where one underscore
  may stand between two digits. Anything else is a \<^verbatim>\<open>ValueError\<close>, and so are more
  digits than the interpreter's limit, \<^verbatim>\<open>sys.int_info.default_max_str_digits\<close>;
  leading zeros count as digits, underscores and the sign do not.

  In a string with a character beyond ASCII, \<^verbatim>\<open>int\<close> takes the decimal digits and the
  white space of Unicode as well. Which characters these are depends on the Unicode tables
  of the interpreter; here such a character is like any other that is no digit, and the
  statements about converted values are made for ASCII strings.
\<close>

definition max_str_digits :: nat where
  "max_str_digits = 4300"

definition int_space :: "char \<Rightarrow> bool" where
  "int_space c = (c \<in> set [CHR 0x09, CHR 0x0A, CHR 0x0B, CHR 0x0C, CHR 0x0D, CHR 0x20])"

definition int_strip :: "string \<Rightarrow> string" where
  "int_strip s = rev (dropWhile int_space (rev (dropWhile int_space s)))"

definition digit_val :: "char \<Rightarrow> nat option" where
  "digit_val c = map_of (zip ''0123456789'' [0, 1, 2, 3, 4, 5, 6, 7, 8, 9]) c"

fun digits_val :: "nat \<Rightarrow> string \<Rightarrow> nat option" where
  "digits_val acc [] = Some acc"
| "digits_val acc [c] =
     (case digit_val c of None \<Rightarrow> None | Some v \<Rightarrow> Some (10 * acc + v))"
| "digits_val acc (c # d # ds) =
     (if c = CHR ''_''
      then (case digit_val d of None \<Rightarrow> None | Some v \<Rightarrow> digits_val (10 * acc + v) ds)
      else (case digit_val c of None \<Rightarrow> None | Some v \<Rightarrow> digits_val (10 * acc + v) (d # ds)))"

definition parse_nat :: "string \<Rightarrow> nat option" where
  "parse_nat s =
     (if max_str_digits < length (filter (\<lambda>c. c \<noteq> CHR ''_'') s) then None
      else
        (case s of
           [] \<Rightarrow> None
         | c # cs \<Rightarrow> (case digit_val c of None \<Rightarrow> None | Some v \<Rightarrow> digits_val v cs)))"

definition int_of_str :: "string \<Rightarrow> int option" where
  "int_of_str s =
     (case int_strip s of
        [] \<Rightarrow> None
      | c # cs \<Rightarrow>
          if c = CHR ''-'' then map_option (\<lambda>n. - int n) (parse_nat cs)
          else if c = CHR ''+'' then map_option int (parse_nat cs)
          else map_option int (parse_nat (c # cs)))"

text \<open>\<^verbatim>\<open>int(x)\<close> of a float truncates towards zero.\<close>

definition trunc :: "rat \<Rightarrow> int" where
  "trunc q = (if 0 \<le> q then \<lfloor>q\<rfloor> else \<lceil>q\<rceil>)"

fun py_int :: "json \<Rightarrow> error + int" where
  "py_int JNull = Inl TypeError"
| "py_int (JBool b) = Inr (if b then 1 else 0)"
| "py_int (JInt n) = Inr n"
| "py_int (JFloat (Finite q)) = Inr (trunc q)"
| "py_int (JFloat NaN) = Inl ValueError"
| "py_int (JFloat PosInf) = Inl OverflowError"
| "py_int (JFloat NegInf) = Inl OverflowError"
| "py_int (JStr s) = (case int_of_str s of None \<Rightarrow> Inl ValueError | Some n \<Rightarrow> Inr n)"
| "py_int (JList xs) = Inl TypeError"
| "py_int (JDict kvs) = Inl TypeError"

text \<open>
  \<^verbatim>\<open>str(n)\<close> of an integer: its decimal digits, after a minus sign when negative, and a
  \<^verbatim>\<open>ValueError\<close> when the digits are more than the limit.
\<close>

fun digits_of :: "nat \<Rightarrow> string" where
  "digits_of n =
     (if n < 10 then [''0123456789'' ! n]
      else digits_of (n div 10) @ [''0123456789'' ! (n mod 10)])"

declare digits_of.simps [simp del]

definition py_str :: "int \<Rightarrow> error + string" where
  "py_str n =
     (let ds = digits_of (nat \<bar>n\<bar>) in
      if max_str_digits < length ds then Inl ValueError
      else Inr (if n < 0 then CHR ''-'' # ds else ds))"

text \<open>\<^verbatim>\<open>s.rsplit(sep, 1)\<close> for a separator of one character: a split at its last occurrence.\<close>

fun rsplit1 :: "char \<Rightarrow> string \<Rightarrow> string list" where
  "rsplit1 sep [] = [[]]"
| "rsplit1 sep (c # cs) =
     (case rsplit1 sep cs of
        [pre, suf] \<Rightarrow> [c # pre, suf]
      | _ \<Rightarrow> if c = sep then [[], cs] else [c # cs])"

section \<open>The Transformer: \<^verbatim>\<open>convert_to_tcg_arena\<close>\<close>

text \<open>
  One entry of \<^verbatim>\<open>CardList.json\<close>. A field \<open>tcg_K\<close> is the key \<^verbatim>\<open>"K"\<close> of the entry,
  a field \<open>front_K\<close> the key \<^verbatim>\<open>"K"\<close> of its \<^verbatim>\<open>face.front\<close>. Values the code passes
  through unchanged keep the type \<open>json\<close>.
\<close>

record front =
  front_name :: json
  front_type :: json
  front_cost :: int
  front_isHorizontal :: bool
  front_image :: json

record tcg_card =
  tcg_id :: json
  tcg_name :: json
  tcg_type :: json
  tcg_face_front :: front
  tcg_Color :: json
  tcg_cost :: int
  tcg_isHorizontal :: bool
  tcg_Cost :: string
  tcg_Power :: string
  tcg_Counter :: string
  tcg_Life :: string
  tcg_Attribute :: json
  tcg_Subtypes :: json
  tcg_Text :: json
  tcg_Rarity :: json
  tcg_Set :: json

text \<open>
  Line 136: \<^verbatim>\<open>card_set_id.rsplit("-", 1)[0] if "-" in card_set_id else card_set_id\<close>.
  The test comes first; \<^verbatim>\<open>rsplit\<close> exists on a \<^verbatim>\<open>str\<close> only. The list \<open>rsplit1\<close>
  returns is never empty, so its element 0 is its head.
\<close>

definition set_code_of :: "json \<Rightarrow> error + json" where
  "set_code_of card_set_id =
     (case py_in ''-'' card_set_id of
        Inl e \<Rightarrow> Inl e
      | Inr True \<Rightarrow>
          (case card_set_id of
             JStr s \<Rightarrow> Inr (JStr (hd (rsplit1 CHR ''-'' s)))
           | _ \<Rightarrow> Inl AttributeError)
      | Inr False \<Rightarrow> Inr card_set_id)"

text \<open>
  Lines 139 to 157 and 163 to 166, the same \<^verbatim>\<open>try\<close> five times:
  \<^verbatim>\<open>str(int(x)) if x is not None else "0"\<close>, and for \<^verbatim>\<open>cost_int\<close> the same without
  \<^verbatim>\<open>str\<close>; \<^verbatim>\<open>except (ValueError, TypeError)\<close> gives \<^verbatim>\<open>"0"\<close> or \<^verbatim>\<open>0\<close>. Any other
  exception leaves the \<^verbatim>\<open>try\<close>.
\<close>

definition except_value_type :: "error + 'a \<Rightarrow> 'a \<Rightarrow> error + 'a" where
  "except_value_type r dflt =
     (case r of
        Inr x \<Rightarrow> Inr x
      | Inl ValueError \<Rightarrow> Inr dflt
      | Inl TypeError \<Rightarrow> Inr dflt
      | Inl e \<Rightarrow> Inl e)"

definition str_int_or_zero :: "json \<Rightarrow> error + string" where
  "str_int_or_zero x =
     except_value_type
       (if x \<noteq> JNull then (case py_int x of Inl e \<Rightarrow> Inl e | Inr n \<Rightarrow> py_str n)
        else Inr ''0'')
       ''0''"

definition int_or_zero :: "json \<Rightarrow> error + int" where
  "int_or_zero x = except_value_type (if x \<noteq> JNull then py_int x else Inr 0) 0"

text \<open>
  The body of the loop for one \<open>raw\<close>: \<open>Inr None\<close> is \<^verbatim>\<open>continue\<close>, \<open>Inr (Some (k, c))\<close>
  the assignment \<^verbatim>\<open>card_list[k] = c\<close>, which needs a key that can be hashed.
\<close>

fun convert_card :: "json \<Rightarrow> error + (json \<times> tcg_card) option" where
  "convert_card (JDict raw) =
     (let card_set_id = dict_get raw ''card_set_id'' (JStr '''') in
      if \<not> truthy card_set_id then Inr None
      else
        let card_name = dict_get raw ''card_name'' (JStr ''Unknown'');
            card_type = dict_get raw ''card_type'' (JStr ''Character'');
            card_cost = dict_get raw ''card_cost'' JNull;
            card_power = dict_get raw ''card_power'' JNull;
            card_color = dict_get raw ''card_color'' (JStr '''');
            card_text = dict_get raw ''card_text'' (JStr '''');
            life = dict_get raw ''life'' JNull;
            counter = dict_get raw ''counter_amount'' JNull;
            attribute = dict_get raw ''attribute'' (JStr '''');
            sub_types = dict_get raw ''sub_types'' (JStr '''');
            rarity = dict_get raw ''rarity'' (JStr '''');
            image_url = dict_get raw ''card_image'' (JStr '''')
        in
          and_then (set_code_of card_set_id) (\<lambda>set_code.
          and_then (str_int_or_zero card_cost) (\<lambda>cost_val.
          and_then (str_int_or_zero card_power) (\<lambda>power_val.
          and_then (str_int_or_zero counter) (\<lambda>counter_val.
          and_then (str_int_or_zero life) (\<lambda>life_val.
          let is_horizontal = (card_type = JStr ''Stage'') in
          and_then (int_or_zero card_cost) (\<lambda>cost_int.
          if \<not> hashable card_set_id then Inl TypeError
          else Inr (Some (card_set_id,
            \<lparr>tcg_id = card_set_id,
             tcg_name = card_name,
             tcg_type = card_type,
             tcg_face_front =
               \<lparr>front_name = card_name,
                front_type = card_type,
                front_cost = cost_int,
                front_isHorizontal = is_horizontal,
                front_image = image_url\<rparr>,
             tcg_Color = card_color,
             tcg_cost = cost_int,
             tcg_isHorizontal = is_horizontal,
             tcg_Cost = cost_val,
             tcg_Power = power_val,
             tcg_Counter = counter_val,
             tcg_Life = life_val,
             tcg_Attribute = attribute,
             tcg_Subtypes = sub_types,
             tcg_Text = card_text,
             tcg_Rarity = rarity,
             tcg_Set = set_code\<rparr>)))))))))"
| "convert_card raw = Inl AttributeError"

text \<open>
  \<^verbatim>\<open>d[k] = v\<close> on a dictionary kept as the list of its items: an equal key keeps its
  place (and the key object first stored), a new key goes to the end.
\<close>

fun dict_set :: "(json \<times> 'v) list \<Rightarrow> json \<Rightarrow> 'v \<Rightarrow> (json \<times> 'v) list" where
  "dict_set [] k v = [(k, v)]"
| "dict_set ((k', v') # d) k v =
     (if key_eq k' k then (k', v) # d else (k', v') # dict_set d k v)"

fun convert_loop :: "json list \<Rightarrow> (json \<times> tcg_card) list \<Rightarrow> error + (json \<times> tcg_card) list" where
  "convert_loop [] card_list = Inr card_list"
| "convert_loop (raw # raw_cards) card_list =
     (case convert_card raw of
        Inl e \<Rightarrow> Inl e
      | Inr None \<Rightarrow> convert_loop raw_cards card_list
      | Inr (Some (k, c)) \<Rightarrow> convert_loop raw_cards (dict_set card_list k c))"

definition convert_to_tcg_arena :: "json list \<Rightarrow> error + (json \<times> tcg_card) list" where
  "convert_to_tcg_arena raw_cards = convert_loop raw_cards []"

section \<open>The Collector: \<^verbatim>\<open>fetch_all_cards\<close>\<close>

text \<open>
  The network is the environment. Its answer to the request number \<open>i\<close> of the run, for a
  URL, is a \<open>response\<close>: a status code with the decoded body (\<open>None\<close> when
  \<^verbatim>\<open>resp.json()\<close> raises), or \<open>RequestError\<close> when \<^verbatim>\<open>requests.get\<close> raises.
  \<^verbatim>\<open>fetch_json\<close> turns all but a list sent with status 200 into the empty list. What the
  code prints and the time it sleeps between requests are left out. (The decoder reads an
  integer with \<^verbatim>\<open>int\<close>, so a body with an integer of more than \<open>max_str_digits\<close> digits
  is one for which \<^verbatim>\<open>resp.json()\<close> raises.)
\<close>

datatype response = Response nat "json option" | RequestError

type_synonym network = "nat \<Rightarrow> string \<Rightarrow> response"

definition API_BASE :: string where
  "API_BASE = ''https://optcgapi.com/api''"

definition SET_IDS :: "string list" where
  "SET_IDS =
     [''OP-01'', ''OP-02'', ''OP-03'', ''OP-04'', ''OP-05'', ''OP-06'', ''OP-07'', ''OP-08'',
      ''OP-09'', ''OP-10'', ''OP-11'', ''OP-12'', ''OP-13'', ''OP-14'',
      ''EB-01'', ''EB-02'',
      ''PRB-01'']"

definition ST_IDS :: "string list" where
  "ST_IDS =
     [''ST-01'', ''ST-02'', ''ST-03'', ''ST-04'', ''ST-05'', ''ST-06'', ''ST-07'', ''ST-08'',
      ''ST-09'', ''ST-10'', ''ST-11'', ''ST-12'', ''ST-13'', ''ST-14'', ''ST-15'', ''ST-16'',
      ''ST-17'', ''ST-18'', ''ST-19'', ''ST-20'', ''ST-21'']"

definition fetch_json :: "network \<Rightarrow> nat \<Rightarrow> string \<Rightarrow> json list" where
  "fetch_json net i url =
     (case net i url of
        RequestError \<Rightarrow> []
      | Response status_code body \<Rightarrow>
          if status_code = 200
          then (case body of Some (JList data) \<Rightarrow> data | _ \<Rightarrow> [])
          else [])"

text \<open>
  The two variables \<^verbatim>\<open>add_cards\<close> closes over. \<open>seen\<close> is a set; the list holds its
  elements, and \<^verbatim>\<open>cid not in seen\<close> looks for an equal key in it.
\<close>

record collector =
  all_raw :: "json list"
  seen :: "json list"

text \<open>
  One pass of the loop of \<^verbatim>\<open>add_cards\<close>, lines 60 to 68. The result says whether the
  card was counted (\<open>card'\<close> is the loop's \<^verbatim>\<open>card\<close>). A card that is no dictionary has no \<^verbatim>\<open>get\<close>.
\<close>

fun add_card :: "json \<Rightarrow> collector \<Rightarrow> error + (bool \<times> collector)" where
  "add_card (JDict card') st =
     (let cid = dict_get card' ''card_set_id'' (JStr '''');
          img_id = py_or (dict_get card' ''card_image_id'' JNull) (JStr '''')
      in and_then (py_in ''_p'' img_id) (\<lambda>marked.
           if marked then Inr (False, st)
           else if truthy cid then
             (if \<not> hashable cid then Inl TypeError
              else if \<not> list_ex (key_eq cid) (seen st)
              then Inr (True, st\<lparr>seen := cid # seen st, all_raw := all_raw st @ [JDict card']\<rparr>)
              else Inr (False, st))
           else Inr (False, st)))"
| "add_card card' st = Inl AttributeError"

fun add_cards_loop :: "json list \<Rightarrow> nat \<Rightarrow> collector \<Rightarrow> error + (nat \<times> collector)" where
  "add_cards_loop [] count st = Inr (count, st)"
| "add_cards_loop (card' # cards) count st =
     (case add_card card' st of
        Inl e \<Rightarrow> Inl e
      | Inr (new, st') \<Rightarrow> add_cards_loop cards (if new then count + 1 else count) st')"

definition add_cards :: "json list \<Rightarrow> collector \<Rightarrow> error + (nat \<times> collector)" where
  "add_cards cards st = add_cards_loop cards 0 st"

text \<open>
  The fallback loops, lines 79 to 84 and 93 to 98: one request for each identifier, numbered
  from \<open>i\<close>. The result carries the number of the next request.
\<close>

fun fetch_each ::
  "network \<Rightarrow> string \<Rightarrow> string list \<Rightarrow> nat \<Rightarrow> collector \<Rightarrow> error + (nat \<times> collector)" where
  "fetch_each net path [] i st = Inr (i, st)"
| "fetch_each net path (sid # sids) i st =
     (case add_cards (fetch_json net i (API_BASE @ path @ sid @ ''/'')) st of
        Inl e \<Rightarrow> Inl e
      | Inr (n, st') \<Rightarrow> fetch_each net path sids (Suc i) st')"

definition fetch_sets :: "network \<Rightarrow> collector \<Rightarrow> error + (nat \<times> collector)" where
  "fetch_sets net st =
     (let bulk = fetch_json net 0 (API_BASE @ ''/allSetCards/'') in
      if bulk \<noteq> []
      then (case add_cards bulk st of Inl e \<Rightarrow> Inl e | Inr (n, st') \<Rightarrow> Inr (1, st'))
      else fetch_each net ''/sets/'' SET_IDS 1 st)"

definition fetch_decks :: "network \<Rightarrow> nat \<Rightarrow> collector \<Rightarrow> error + (nat \<times> collector)" where
  "fetch_decks net i st =
     (let bulk_st = fetch_json net i (API_BASE @ ''/allSTCards/'') in
      if bulk_st \<noteq> []
      then (case add_cards bulk_st st of Inl e \<Rightarrow> Inl e | Inr (n, st') \<Rightarrow> Inr (Suc i, st'))
      else fetch_each net ''/decks/'' ST_IDS (Suc i) st)"

definition fetch_promos :: "network \<Rightarrow> nat \<Rightarrow> collector \<Rightarrow> error + collector" where
  "fetch_promos net i st =
     (let promos = fetch_json net i (API_BASE @ ''/sets/PRB-01/'') in
      if promos \<noteq> []
      then (case add_cards promos st of Inl e \<Rightarrow> Inl e | Inr (n, st') \<Rightarrow> Inr st')
      else Inr st)"

definition fetch_all_cards :: "network \<Rightarrow> error + json list" where
  "fetch_all_cards net =
     and_then (fetch_sets net \<lparr>all_raw = [], seen = []\<rparr>) (\<lambda>(i, st1).
     and_then (fetch_decks net i st1) (\<lambda>(j, st2).
     and_then (fetch_promos net j st2) (\<lambda>st3.
     Inr (all_raw st3))))"

section \<open>The run: \<^verbatim>\<open>main\<close>\<close>

subsection \<open>Comparing and sorting\<close>

text \<open>
  \<^verbatim>\<open>==\<close> never raises on these values. \<^verbatim>\<open><\<close> orders numbers with numbers, strings
  with strings and lists with lists (by their first unequal elements), and raises
  \<^verbatim>\<open>TypeError\<close> for every other pair.
\<close>

fun py_eq :: "json \<Rightarrow> json \<Rightarrow> bool" where
  "py_eq (JList xs) (JList ys) = list_all2 py_eq xs ys"
| "py_eq (JDict a) (JDict b) =
     (length a = length b \<and>
      list_all (\<lambda>(k, v). case map_of b k of None \<Rightarrow> False | Some w \<Rightarrow> py_eq v w) a)"
| "py_eq a b = key_eq a b"

fun float_lt :: "pyfloat \<Rightarrow> pyfloat \<Rightarrow> bool" where
  "float_lt (Finite a) (Finite b) = (a < b)"
| "float_lt NaN y = False"
| "float_lt x NaN = False"
| "float_lt x NegInf = False"
| "float_lt PosInf y = False"
| "float_lt NegInf y = True"
| "float_lt (Finite a) PosInf = True"

fun py_lt :: "json \<Rightarrow> json \<Rightarrow> error + bool" where
  "py_lt (JStr a) (JStr b) = Inr (a < b)"
| "py_lt (JList []) (JList ys) = Inr (ys \<noteq> [])"
| "py_lt (JList (x # xs)) (JList []) = Inr False"
| "py_lt (JList (x # xs)) (JList (y # ys)) =
     (if py_eq x y then py_lt (JList xs) (JList ys) else py_lt x y)"
| "py_lt a b =
     (case number_of a of
        None \<Rightarrow> Inl TypeError
      | Some x \<Rightarrow> (case number_of b of None \<Rightarrow> Inl TypeError | Some y \<Rightarrow> Inr (float_lt x y)))"

text \<open>
  \<^verbatim>\<open>list.sort\<close> and \<^verbatim>\<open>sorted\<close> are stable, and an exception of a comparison they make
  leaves them. They cannot order two keys without a comparison that decides between the
  two, so two keys that cannot be compared make them raise. (With a \<^verbatim>\<open>NaN\<close> among the
  keys \<^verbatim>\<open><\<close> is no order, and the result is the algorithm's, which is not modelled.)
\<close>

definition comparable :: "('a \<Rightarrow> 'a \<Rightarrow> error + bool) \<Rightarrow> 'a \<Rightarrow> 'a \<Rightarrow> bool" where
  "comparable lt x y = (case lt x y of Inl e \<Rightarrow> False | Inr b \<Rightarrow> True)"

fun insert_sorted :: "('a \<Rightarrow> 'a \<Rightarrow> error + bool) \<Rightarrow> 'a \<Rightarrow> 'a list \<Rightarrow> 'a list" where
  "insert_sorted lt x [] = [x]"
| "insert_sorted lt x (y # ys) =
     (if lt y x = Inr True then y # insert_sorted lt x ys else x # y # ys)"

definition py_sorted :: "('a \<Rightarrow> 'a \<Rightarrow> error + bool) \<Rightarrow> 'a list \<Rightarrow> error + 'a list" where
  "py_sorted lt xs =
     (if list_all (\<lambda>x. list_all (comparable lt x) xs) xs
      then Inr (foldr (insert_sorted lt) xs [])
      else Inl TypeError)"

text \<open>Tuples compare by their first unequal components.\<close>

definition key_lt :: "json \<times> json \<Rightarrow> json \<times> json \<Rightarrow> error + bool" where
  "key_lt a b =
     (if \<not> py_eq (fst a) (fst b) then py_lt (fst a) (fst b)
      else if \<not> py_eq (snd a) (snd b) then py_lt (snd a) (snd b)
      else Inr False)"

definition item_lt :: "json \<times> nat \<Rightarrow> json \<times> nat \<Rightarrow> error + bool" where
  "item_lt a b =
     (if \<not> py_eq (fst a) (fst b) then py_lt (fst a) (fst b) else Inr (snd a < snd b))"

text \<open>
  Line 212: \<^verbatim>\<open>raw_cards.sort(key=lambda c: (c.get("set_id", ""), c.get("card_set_id", "")))\<close>.
  The keys are computed first, one for each card.
\<close>

fun sort_keys :: "json list \<Rightarrow> error + ((json \<times> json) \<times> json) list" where
  "sort_keys [] = Inr []"
| "sort_keys (JDict c # cs) =
     and_then (sort_keys cs) (\<lambda>ks.
     Inr (((dict_get c ''set_id'' (JStr ''''), dict_get c ''card_set_id'' (JStr '''')), JDict c) # ks))"
| "sort_keys (c # cs) = Inl AttributeError"

definition sort_cards :: "json list \<Rightarrow> error + json list" where
  "sort_cards raw_cards =
     and_then (sort_keys raw_cards) (\<lambda>ks.
     and_then (py_sorted (\<lambda>a b. key_lt (fst a) (fst b)) ks) (\<lambda>sorted.
     Inr (map snd sorted)))"

subsection \<open>The summary\<close>

text \<open>
  Lines 224 to 246. The three dictionaries of counts, \<^verbatim>\<open>d[k] = d.get(k, 0) + 1\<close> on
  them (which hashes \<open>k\<close>), \<^verbatim>\<open>s.split("/")\<close>, and the three \<^verbatim>\<open>sorted(d.items())\<close>.
\<close>

record counts =
  type_counts :: "(json \<times> nat) list"
  color_counts :: "(json \<times> nat) list"
  set_counts :: "(json \<times> nat) list"

definition count_get :: "(json \<times> nat) list \<Rightarrow> json \<Rightarrow> nat" where
  "count_get d k = (case find (\<lambda>kv. key_eq (fst kv) k) d of None \<Rightarrow> 0 | Some kv \<Rightarrow> snd kv)"

definition count_up :: "(json \<times> nat) list \<Rightarrow> json \<Rightarrow> error + (json \<times> nat) list" where
  "count_up d k = (if hashable k then Inr (dict_set d k (count_get d k + 1)) else Inl TypeError)"

fun split_char :: "char \<Rightarrow> string \<Rightarrow> string list" where
  "split_char sep [] = [[]]"
| "split_char sep (c # cs) =
     (if c = sep then [] # split_char sep cs
      else (case split_char sep cs of p # ps \<Rightarrow> (c # p) # ps | [] \<Rightarrow> [[c]]))"

text \<open>
  \<^verbatim>\<open>color.strip()\<close> takes the white space of ASCII from both ends, the separators 0x1C
  to 0x1F included. (The white space beyond ASCII, which it takes as well, stays here;
  that changes a name the summary prints and not how the run ends.)
\<close>

definition is_space :: "char \<Rightarrow> bool" where
  "is_space c = (c \<in> set [CHR 0x09, CHR 0x0A, CHR 0x0B, CHR 0x0C, CHR 0x0D,
                            CHR 0x1C, CHR 0x1D, CHR 0x1E, CHR 0x1F, CHR 0x20])"

definition strip :: "string \<Rightarrow> string" where
  "strip s = rev (dropWhile is_space (rev (dropWhile is_space s)))"

fun count_colors :: "string list \<Rightarrow> (json \<times> nat) list \<Rightarrow> error + (json \<times> nat) list" where
  "count_colors [] d = Inr d"
| "count_colors (color # colors) d =
     and_then (count_up d (JStr (strip color))) (count_colors colors)"

definition count_card :: "tcg_card \<Rightarrow> counts \<Rightarrow> error + counts" where
  "count_card c cs =
     and_then (count_up (type_counts cs) (tcg_type c)) (\<lambda>tc.
     and_then
       (if truthy (tcg_Color c)
        then (case tcg_Color c of
                JStr s \<Rightarrow> count_colors (split_char CHR ''/'' s) (color_counts cs)
              | _ \<Rightarrow> Inl AttributeError)
        else Inr (color_counts cs)) (\<lambda>cc.
     and_then
       (if truthy (tcg_Set c) then count_up (set_counts cs) (tcg_Set c)
        else Inr (set_counts cs)) (\<lambda>sc.
     Inr \<lparr>type_counts = tc, color_counts = cc, set_counts = sc\<rparr>)))"

fun count_cards :: "tcg_card list \<Rightarrow> counts \<Rightarrow> error + counts" where
  "count_cards [] cs = Inr cs"
| "count_cards (c # rest) cs = and_then (count_card c cs) (count_cards rest)"

definition summary :: "(json \<times> tcg_card) list \<Rightarrow> error + counts" where
  "summary card_list =
     and_then
       (count_cards (map snd card_list) \<lparr>type_counts = [], color_counts = [], set_counts = []\<rparr>)
       (\<lambda>cs.
     and_then (py_sorted item_lt (type_counts cs)) (\<lambda>by_type.
     and_then (py_sorted item_lt (color_counts cs)) (\<lambda>by_color.
     and_then (py_sorted item_lt (set_counts cs)) (\<lambda>by_set.
     Inr \<lparr>type_counts = by_type, color_counts = by_color, set_counts = by_set\<rparr>))))"

subsection \<open>\<^verbatim>\<open>main\<close> and the exit status\<close>

text \<open>
  How the process ends: \<open>Exit n\<close> by \<^verbatim>\<open>sys.exit(n)\<close> or, with \<open>n = 0\<close>, by the return of
  \<^verbatim>\<open>main\<close>; \<open>Uncaught e\<close> by an exception nothing catches, which the interpreter turns
  into the exit status 1. With each comes what was written to \<^verbatim>\<open>CardList.json\<close>, if the
  run got that far. Opening and writing the file and printing are taken to succeed (every
  string here is one that UTF-8 encodes).
\<close>

datatype outcome =
    Exit nat "(json \<times> tcg_card) list option"
  | Uncaught error "(json \<times> tcg_card) list option"

fun exit_status :: "outcome \<Rightarrow> nat" where
  "exit_status (Exit n written) = n"
| "exit_status (Uncaught e written) = 1"

fun written_file :: "outcome \<Rightarrow> (json \<times> tcg_card) list option" where
  "written_file (Exit n written) = written"
| "written_file (Uncaught e written) = written"

definition main :: "network \<Rightarrow> outcome" where
  "main net =
     (case fetch_all_cards net of
        Inl e \<Rightarrow> Uncaught e None
      | Inr raw_cards \<Rightarrow>
          if raw_cards = [] then Exit 1 None
          else
            (case sort_cards raw_cards of
               Inl e \<Rightarrow> Uncaught e None
             | Inr sorted_cards \<Rightarrow>
                 (case convert_to_tcg_arena sorted_cards of
                    Inl e \<Rightarrow> Uncaught e None
                  | Inr card_list \<Rightarrow>
                      (case summary card_list of
                         Inl e \<Rightarrow> Uncaught e (Some card_list)
                       | Inr printed \<Rightarrow> Exit 0 (Some card_list)))))"

section \<open>The words of the properties\<close>

text \<open>
  A record bears the identifier \<open>s\<close> when \<^verbatim>\<open>card.get("card_set_id", "")\<close> is the string
  \<open>s\<close>. It has the variant marker when the test of line 63 succeeds on it.
\<close>

definition card_set_id_is :: "string \<Rightarrow> json \<Rightarrow> bool" where
  "card_set_id_is s r =
     (case r of JDict d \<Rightarrow> dict_get d ''card_set_id'' (JStr '''') = JStr s | _ \<Rightarrow> False)"

definition has_marker :: "json \<Rightarrow> bool" where
  "has_marker r =
     (case r of
        JDict d \<Rightarrow> py_in ''_p'' (py_or (dict_get d ''card_image_id'' JNull) (JStr '''')) = Inr True
      | _ \<Rightarrow> False)"

text \<open>
  The records the upstream service is expected to send: a dictionary whose
  \<^verbatim>\<open>card_set_id\<close> and \<^verbatim>\<open>card_image_id\<close> are each a string, \<^verbatim>\<open>null\<close> or absent.
\<close>

definition text_or_null :: "json \<Rightarrow> bool" where
  "text_or_null v = (case v of JNull \<Rightarrow> True | JStr s \<Rightarrow> True | _ \<Rightarrow> False)"

definition text_keyed :: "json \<Rightarrow> bool" where
  "text_keyed r =
     (case r of
        JDict d \<Rightarrow>
          text_or_null (dict_get d ''card_set_id'' (JStr '''')) \<and>
          text_or_null (dict_get d ''card_image_id'' JNull)
      | _ \<Rightarrow> False)"

text \<open>
  The records the Transformer takes without an exception: a dictionary whose
  \<^verbatim>\<open>card_set_id\<close> is a string, \<^verbatim>\<open>null\<close> or absent, and none of whose four numeric
  fields is an infinite float.
\<close>

definition transformable :: "json \<Rightarrow> bool" where
  "transformable r =
     (case r of
        JDict d \<Rightarrow>
          text_or_null (dict_get d ''card_set_id'' (JStr '''')) \<and>
          list_all (\<lambda>k. dict_get d k JNull \<noteq> JFloat PosInf \<and> dict_get d k JNull \<noteq> JFloat NegInf)
            [''card_cost'', ''card_power'', ''counter_amount'', ''life'']
      | _ \<Rightarrow> False)"

text \<open>
  A value whose conversion by \<^verbatim>\<open>int\<close> does not depend on the Unicode tables: any value
  that is no string, and a string of ASCII characters (in UTF-8 these are the bytes
  without the highest bit).
\<close>

definition ascii_char :: "char \<Rightarrow> bool" where
  "ascii_char c = (\<not> digit7 c)"

definition ascii_text :: "json \<Rightarrow> bool" where
  "ascii_text v = (case v of JStr s \<Rightarrow> list_all ascii_char s | _ \<Rightarrow> True)"

text \<open>
  The values of a numeric field for which the coercion is described: no infinite float
  (where \<^verbatim>\<open>int\<close> raises \<^verbatim>\<open>OverflowError\<close>), and no string with a character beyond
  ASCII.
\<close>

definition coercible :: "json \<Rightarrow> bool" where
  "coercible v = (v \<noteq> JFloat PosInf \<and> v \<noteq> JFloat NegInf \<and> ascii_text v)"

text \<open>\<^verbatim>\<open>add_cards\<close> without the count it returns.\<close>

definition add_all :: "json list \<Rightarrow> collector \<Rightarrow> error + collector" where
  "add_all cards st = (case add_cards cards st of Inl e \<Rightarrow> Inl e | Inr (n, st') \<Rightarrow> Inr st')"

text \<open>
  The combined fetch stream of a run: the cards of every list \<^verbatim>\<open>fetch_all_cards\<close> hands
  to \<^verbatim>\<open>add_cards\<close>, in the order of the calls.
\<close>

fun fetch_each_cards :: "network \<Rightarrow> string \<Rightarrow> string list \<Rightarrow> nat \<Rightarrow> json list" where
  "fetch_each_cards net path [] i = []"
| "fetch_each_cards net path (sid # sids) i =
     fetch_json net i (API_BASE @ path @ sid @ ''/'') @ fetch_each_cards net path sids (Suc i)"

definition fetch_stream :: "network \<Rightarrow> json list" where
  "fetch_stream net =
     (let bulk = fetch_json net 0 (API_BASE @ ''/allSetCards/'');
          i = (if bulk \<noteq> [] then 1 else 1 + length SET_IDS);
          bulk_st = fetch_json net i (API_BASE @ ''/allSTCards/'');
          j = (if bulk_st \<noteq> [] then Suc i else Suc i + length ST_IDS)
      in (if bulk \<noteq> [] then bulk else fetch_each_cards net ''/sets/'' SET_IDS 1)
       @ (if bulk_st \<noteq> [] then bulk_st else fetch_each_cards net ''/decks/'' ST_IDS (Suc i))
       @ fetch_json net j (API_BASE @ ''/sets/PRB-01/''))"

text \<open>
  A network for the examples: the bulk endpoint of the sets answers with the given cards,
  every other request with status 404.
\<close>

definition bulk_sets_only :: "json list \<Rightarrow> network" where
  "bulk_sets_only cards =
     (\<lambda>i url. if url = ''https://optcgapi.com/api/allSetCards/''
               then Response 200 (Some (JList cards)) else Response 404 None)"

text \<open>
  An entry for the examples: the one made of a record that holds its identifier and
  nothing else, with the group code the identifier has.
\<close>

definition bare_entry :: "string \<Rightarrow> string \<Rightarrow> tcg_card" where
  "bare_entry ident group_code =
     \<lparr>tcg_id = JStr ident,
      tcg_name = JStr ''Unknown'',
      tcg_type = JStr ''Character'',
      tcg_face_front =
        \<lparr>front_name = JStr ''Unknown'',
         front_type = JStr ''Character'',
         front_cost = 0,
         front_isHorizontal = False,
         front_image = JStr ''''\<rparr>,
      tcg_Color = JStr '''',
      tcg_cost = 0,
      tcg_isHorizontal = False,
      tcg_Cost = ''0'',
      tcg_Power = ''0'',
      tcg_Counter = ''0'',
      tcg_Life = ''0'',
      tcg_Attribute = JStr '''',
      tcg_Subtypes = JStr '''',
      tcg_Text = JStr '''',
      tcg_Rarity = JStr '''',
      tcg_Set = JStr group_code\<rparr>"

section \<open>Evaluation and basic facts\<close>

text \<open>The definitions a concrete run unfolds.\<close>

lemmas eval_values = dict_get_def py_or_def starts_with_def key_eq_def Let_def and_then_def

lemmas eval_convert = set_code_of_def str_int_or_zero_def int_or_zero_def except_value_type_def
  convert_to_tcg_arena_def int_of_str_def int_strip_def int_space_def max_str_digits_def
  strip_def is_space_def parse_nat_def digit_val_def
  py_str_def digits_of.simps trunc_def bare_entry_def

lemmas eval_fetch = fetch_all_cards_def fetch_sets_def fetch_decks_def fetch_promos_def
  fetch_json_def add_cards_def SET_IDS_def ST_IDS_def API_BASE_def bulk_sets_only_def
  fetch_stream_def card_set_id_is_def has_marker_def

lemmas eval_main = main_def sort_cards_def py_sorted_def comparable_def key_lt_def item_lt_def
  summary_def count_card_def count_up_def count_get_def

lemma and_then_Inr: "and_then r f = Inr y \<longleftrightarrow> (\<exists>x. r = Inr x \<and> f x = Inr y)"
  by (cases r) (simp_all add: and_then_def)

subsection \<open>Substrings and splitting\<close>

lemma starts_with_iff: "starts_with p s \<longleftrightarrow> (\<exists>ss. s = p @ ss)"
proof
  assume "starts_with p s"
  then have "s = p @ drop (length p) s"
    unfolding starts_with_def by (metis append_take_drop_id)
  then show "\<exists>ss. s = p @ ss" ..
next
  assume "\<exists>ss. s = p @ ss"
  then show "starts_with p s"
    unfolding starts_with_def by auto
qed

lemma is_substring_iff: "is_substring p s \<longleftrightarrow> (\<exists>ps ss. s = ps @ p @ ss)"
proof (induction s)
  case Nil
  then show ?case by auto
next
  case (Cons c cs)
  show ?case
  proof
    assume "is_substring p (c # cs)"
    then consider "starts_with p (c # cs)" | "is_substring p cs" by auto
    then show "\<exists>ps ss. c # cs = ps @ p @ ss"
    proof cases
      case 1
      then obtain ss where "c # cs = p @ ss" unfolding starts_with_iff ..
      then have "c # cs = [] @ p @ ss" by simp
      then show ?thesis by blast
    next
      case 2
      then obtain ps ss where "cs = ps @ p @ ss" using Cons.IH by blast
      then have "c # cs = (c # ps) @ p @ ss" by simp
      then show ?thesis by blast
    qed
  next
    assume "\<exists>ps ss. c # cs = ps @ p @ ss"
    then obtain ps ss where eq: "c # cs = ps @ p @ ss" by blast
    show "is_substring p (c # cs)"
    proof (cases ps)
      case Nil
      with eq have "starts_with p (c # cs)" unfolding starts_with_iff by auto
      then show ?thesis by simp
    next
      case (Cons a ps')
      with eq have "cs = ps' @ p @ ss" by simp
      then have "is_substring p cs" using Cons.IH by blast
      then show ?thesis by simp
    qed
  qed
qed

lemma is_substring_char: "is_substring [c] s \<longleftrightarrow> c \<in> set s"
  by (induction s) (auto simp: starts_with_def)

lemma rsplit1_no_sep: "sep \<notin> set s \<Longrightarrow> rsplit1 sep s = [s]"
  by (induction s) auto

lemma rsplit1_last: "sep \<notin> set suf \<Longrightarrow> rsplit1 sep (pre @ sep # suf) = [pre, suf]"
  by (induction pre) (auto simp: rsplit1_no_sep)

lemma rsplit1_nonempty: "rsplit1 sep s \<noteq> []"
  by (induction s) (auto split: list.splits)

lemma last_sep_split: "sep \<in> set s \<Longrightarrow> \<exists>pre suf. s = pre @ sep # suf \<and> sep \<notin> set suf"
  by (metis split_list_last)

lemma group_code_exists:
  "\<exists>g. CHR ''-'' \<notin> set s \<and> g = s \<or> (\<exists>suf. s = g @ CHR ''-'' # suf \<and> CHR ''-'' \<notin> set suf)"
proof (cases "CHR ''-'' \<in> set s")
  case True
  from last_sep_split [OF True]
  obtain pre suf where "s = pre @ CHR ''-'' # suf \<and> CHR ''-'' \<notin> set suf"
    by (elim exE)
  then have "\<exists>suf. s = pre @ CHR ''-'' # suf \<and> CHR ''-'' \<notin> set suf" ..
  then have "CHR ''-'' \<notin> set s \<and> pre = s \<or>
      (\<exists>suf. s = pre @ CHR ''-'' # suf \<and> CHR ''-'' \<notin> set suf)" ..
  then show ?thesis by (rule exI [of _ pre])
next
  case False
  then have "CHR ''-'' \<notin> set s \<and> s = s \<or>
      (\<exists>suf. s = s @ CHR ''-'' # suf \<and> CHR ''-'' \<notin> set suf)" by simp
  then show ?thesis by (rule exI [of _ s])
qed

section \<open>The numeric fields\<close>

text \<open>
  \<^verbatim>\<open>int\<close> raises \<^verbatim>\<open>OverflowError\<close> on the two infinite floats and on nothing else, and
  that is the one exception the \<^verbatim>\<open>try\<close> blocks of lines 139 to 166 let through.
\<close>

lemma except_value_type_no_overflow:
  "r \<noteq> Inl OverflowError \<Longrightarrow> r \<noteq> Inl AttributeError \<Longrightarrow>
   except_value_type r d = Inr (case r of Inl e \<Rightarrow> d | Inr x \<Rightarrow> x)"
  by (cases r) (auto simp: except_value_type_def split: error.splits)

lemma py_int_not_attribute: "py_int x \<noteq> Inl AttributeError"
  by (cases x rule: py_int.cases) (auto split: option.splits)

lemma py_int_overflow: "py_int x = Inl OverflowError \<longleftrightarrow> x = JFloat PosInf \<or> x = JFloat NegInf"
  by (cases x rule: py_int.cases) (auto split: option.splits)

lemma int_or_zero_finite:
  assumes "x \<noteq> JFloat PosInf" "x \<noteq> JFloat NegInf"
  shows "int_or_zero x = Inr (case py_int x of Inl e \<Rightarrow> 0 | Inr n \<Rightarrow> n)"
proof (cases "x = JNull")
  case True
  then show ?thesis by (simp add: int_or_zero_def except_value_type_def)
next
  case False
  from assms have "py_int x \<noteq> Inl OverflowError" by (simp add: py_int_overflow)
  with False show ?thesis
    by (simp add: int_or_zero_def except_value_type_no_overflow py_int_not_attribute)
qed

lemma py_str_0: "py_str 0 = Inr ''0''"
  by (simp add: py_str_def digits_of.simps max_str_digits_def)

lemma py_str_error: "py_str n = Inl e \<Longrightarrow> e = ValueError"
  by (simp add: py_str_def Let_def split: if_splits)

lemma except_value_type_py_str:
  "except_value_type (py_str n) ''0'' = Inr (case py_str n of Inl e \<Rightarrow> ''0'' | Inr t \<Rightarrow> t)"
proof (cases "py_str n")
  case (Inl e)
  with py_str_error [OF Inl] show ?thesis by (simp add: except_value_type_def)
next
  case (Inr t)
  then show ?thesis by (simp add: except_value_type_def)
qed

lemma str_int_or_zero_finite:
  assumes "x \<noteq> JFloat PosInf" "x \<noteq> JFloat NegInf"
  shows "str_int_or_zero x =
           Inr (case py_str (case py_int x of Inl e \<Rightarrow> 0 | Inr n \<Rightarrow> n) of
                  Inl e \<Rightarrow> ''0'' | Inr t \<Rightarrow> t)"
proof (cases "x = JNull")
  case True
  then show ?thesis by (simp add: str_int_or_zero_def except_value_type_def py_str_0)
next
  case False
  from assms have no: "py_int x \<noteq> Inl OverflowError" by (simp add: py_int_overflow)
  show ?thesis
  proof (cases "py_int x")
    case (Inl e)
    with no py_int_not_attribute [of x] have "e = ValueError \<or> e = TypeError"
      by (cases e) auto
    with False Inl show ?thesis
      by (auto simp: str_int_or_zero_def except_value_type_def py_str_0)
  next
    case (Inr n)
    with False show ?thesis
      by (simp add: str_int_or_zero_def except_value_type_py_str)
  qed
qed

lemma int_or_zero_infinite:
  "x = JFloat PosInf \<or> x = JFloat NegInf \<Longrightarrow> int_or_zero x = Inl OverflowError"
  by (auto simp: int_or_zero_def except_value_type_def)

lemma str_int_or_zero_infinite:
  "x = JFloat PosInf \<or> x = JFloat NegInf \<Longrightarrow> str_int_or_zero x = Inl OverflowError"
  by (auto simp: str_int_or_zero_def except_value_type_def)

lemma set_code_of_str:
  "set_code_of (JStr s) = Inr (JStr (if CHR ''-'' \<in> set s then hd (rsplit1 CHR ''-'' s) else s))"
  by (simp add: set_code_of_def is_substring_char)

lemma set_code_of_Inr_hashable:
  "set_code_of v = Inr sc \<Longrightarrow> hashable v \<Longrightarrow> \<exists>s. v = JStr s"
  by (cases v) (auto simp: set_code_of_def)

section \<open>One pass of the Transformer's loop\<close>

text \<open>What a pass of the loop that stores an entry has computed.\<close>

lemma convert_card_Some:
  assumes "convert_card r = Inr (Some (k, c))"
  shows "\<exists>raw s cost_val power_val counter_val life_val cost_int.
           r = JDict raw \<and> dict_get raw ''card_set_id'' (JStr '''') = JStr s \<and> s \<noteq> [] \<and>
           k = JStr s \<and>
           str_int_or_zero (dict_get raw ''card_cost'' JNull) = Inr cost_val \<and>
           str_int_or_zero (dict_get raw ''card_power'' JNull) = Inr power_val \<and>
           str_int_or_zero (dict_get raw ''counter_amount'' JNull) = Inr counter_val \<and>
           str_int_or_zero (dict_get raw ''life'' JNull) = Inr life_val \<and>
           int_or_zero (dict_get raw ''card_cost'' JNull) = Inr cost_int \<and>
           c = \<lparr>tcg_id = JStr s,
                tcg_name = dict_get raw ''card_name'' (JStr ''Unknown''),
                tcg_type = dict_get raw ''card_type'' (JStr ''Character''),
                tcg_face_front =
                  \<lparr>front_name = dict_get raw ''card_name'' (JStr ''Unknown''),
                   front_type = dict_get raw ''card_type'' (JStr ''Character''),
                   front_cost = cost_int,
                   front_isHorizontal =
                     (dict_get raw ''card_type'' (JStr ''Character'') = JStr ''Stage''),
                   front_image = dict_get raw ''card_image'' (JStr '''')\<rparr>,
                tcg_Color = dict_get raw ''card_color'' (JStr ''''),
                tcg_cost = cost_int,
                tcg_isHorizontal =
                  (dict_get raw ''card_type'' (JStr ''Character'') = JStr ''Stage''),
                tcg_Cost = cost_val,
                tcg_Power = power_val,
                tcg_Counter = counter_val,
                tcg_Life = life_val,
                tcg_Attribute = dict_get raw ''attribute'' (JStr ''''),
                tcg_Subtypes = dict_get raw ''sub_types'' (JStr ''''),
                tcg_Text = dict_get raw ''card_text'' (JStr ''''),
                tcg_Rarity = dict_get raw ''rarity'' (JStr ''''),
                tcg_Set = JStr (if CHR ''-'' \<in> set s then hd (rsplit1 CHR ''-'' s) else s)\<rparr>"
proof -
  from assms obtain raw where r: "r = JDict raw"
    by (cases r) auto
  let ?cid = "dict_get raw ''card_set_id'' (JStr '''')"
  from assms r have t: "truthy ?cid"
    by (auto simp: Let_def split: if_splits)
  from assms r t obtain set_code where sc: "set_code_of ?cid = Inr set_code"
    by (auto simp: Let_def and_then_Inr)
  from assms r t have h: "hashable ?cid"
    by (auto simp: Let_def and_then_Inr split: if_splits)
  from sc h obtain s where s: "?cid = JStr s"
    using set_code_of_Inr_hashable by blast
  with t have ne: "s \<noteq> []" by simp
  from assms r s ne show ?thesis
    by (auto simp: Let_def and_then_Inr set_code_of_str)
qed

lemma convert_card_total:
  assumes "dict_get raw ''card_set_id'' (JStr '''') = JStr s" and "s \<noteq> []"
    and "dict_get raw ''card_cost'' JNull \<notin> {JFloat PosInf, JFloat NegInf}"
    and "dict_get raw ''card_power'' JNull \<notin> {JFloat PosInf, JFloat NegInf}"
    and "dict_get raw ''counter_amount'' JNull \<notin> {JFloat PosInf, JFloat NegInf}"
    and "dict_get raw ''life'' JNull \<notin> {JFloat PosInf, JFloat NegInf}"
  shows "\<exists>c. convert_card (JDict raw) = Inr (Some (JStr s, c))"
  using assms
  by (simp add: Let_def and_then_def set_code_of_str int_or_zero_finite str_int_or_zero_finite)

text \<open>The Transformer returns a mapping when every record is one it takes.\<close>

lemma convert_card_returns:
  assumes "transformable r"
  shows "\<exists>p. convert_card r = Inr p"
proof -
  from assms obtain d where r: "r = JDict d"
    and cid: "text_or_null (dict_get d ''card_set_id'' (JStr ''''))"
    and fin: "dict_get d ''card_cost'' JNull \<notin> {JFloat PosInf, JFloat NegInf}"
      "dict_get d ''card_power'' JNull \<notin> {JFloat PosInf, JFloat NegInf}"
      "dict_get d ''counter_amount'' JNull \<notin> {JFloat PosInf, JFloat NegInf}"
      "dict_get d ''life'' JNull \<notin> {JFloat PosInf, JFloat NegInf}"
    by (cases r) (simp_all add: transformable_def)
  show ?thesis
  proof (cases "truthy (dict_get d ''card_set_id'' (JStr ''''))")
    case False
    then have "convert_card (JDict d) = Inr None" by simp
    with r show ?thesis by simp
  next
    case True
    with cid obtain s where "dict_get d ''card_set_id'' (JStr '''') = JStr s" "s \<noteq> []"
      by (cases "dict_get d ''card_set_id'' (JStr '''')") (simp_all add: text_or_null_def)
    from convert_card_total [OF this fin] r show ?thesis by blast
  qed
qed

lemma convert_loop_returns:
  assumes "list_all transformable rs"
  shows "\<exists>m. convert_loop rs cl = Inr m"
  using assms
proof (induction rs arbitrary: cl)
  case Nil
  show ?case by simp
next
  case (Cons r rs)
  from Cons.prems have r: "transformable r" and rs: "list_all transformable rs"
    by simp_all
  from r obtain p where p: "convert_card r = Inr p"
    using convert_card_returns by blast
  show ?case
  proof (cases p)
    case None
    with p rs show ?thesis by (simp add: Cons.IH)
  next
    case (Some kc)
    obtain k c where "kc = (k, c)" by (cases kc)
    with p Some rs show ?thesis by (simp add: Cons.IH)
  qed
qed

lemma convert_to_tcg_arena_returns:
  "list_all transformable rs \<Longrightarrow> \<exists>m. convert_to_tcg_arena rs = Inr m"
  by (simp add: convert_to_tcg_arena_def convert_loop_returns)

text \<open>
  The limits at work: the separator 0x1C is white space for \<^verbatim>\<open>str.strip\<close> and not for
  \<^verbatim>\<open>int\<close>; a string of 4301 digits and the integer \<open>10 ^ 4300\<close>, which has 4301, are
  refused.
\<close>

lemma int_of_str_examples:
  "int_of_str '' 7 '' = Some 7 \<and> int_of_str [CHR 0x1C, CHR ''7''] = None \<and>
   strip [CHR 0x1C, CHR ''7''] = ''7'' \<and>
   int_of_str ''-007'' = Some (- 7) \<and> int_of_str ''+1_000'' = Some 1000 \<and>
   int_of_str ''1__0'' = None \<and> int_of_str ''_1'' = None \<and> int_of_str ''1_'' = None \<and>
   int_of_str ''- 1'' = None \<and> int_of_str ''+'' = None \<and> int_of_str '''' = None"
  by (simp add: int_of_str_def int_strip_def int_space_def strip_def is_space_def parse_nat_def
      digit_val_def max_str_digits_def)

lemma int_of_str_limit:
  assumes "max_str_digits < n"
  shows "int_of_str (replicate n CHR ''1'') = None"
proof -
  from assms obtain m where n: "n = Suc m" by (cases n) auto
  then have cons: "replicate n CHR ''1'' = CHR ''1'' # replicate m CHR ''1''"
    by simp
  have same: "int_strip (replicate n CHR ''1'') = replicate n CHR ''1''"
    by (simp add: int_strip_def int_space_def dropWhile_replicate)
  have "parse_nat (replicate n CHR ''1'') = None"
    using assms by (simp add: parse_nat_def)
  then have none: "parse_nat (CHR ''1'' # replicate m CHR ''1'') = None"
    by (simp only: cons)
  from same have "int_strip (CHR ''1'' # replicate m CHR ''1'') = CHR ''1'' # replicate m CHR ''1''"
    by (simp only: cons)
  with none show ?thesis
    by (simp add: int_of_str_def cons)
qed

lemma length_digits_of_power: "length (digits_of (10 ^ k)) = Suc k"
proof (induction k)
  case 0
  show ?case by (simp add: digits_of.simps)
next
  case (Suc k)
  have "digits_of (10 ^ Suc k) = digits_of (10 ^ k) @ [''0123456789'' ! (10 ^ Suc k mod 10)]"
    by (subst digits_of.simps) simp
  with Suc show ?case by simp
qed

lemma py_str_limit: "py_str (10 ^ max_str_digits) = Inl ValueError"
proof -
  have "nat ((10 :: int) ^ max_str_digits) = 10 ^ max_str_digits"
    by (simp add: nat_power_eq)
  then have "length (digits_of (nat ((10 :: int) ^ max_str_digits))) = Suc max_str_digits"
    by (simp only: length_digits_of_power)
  then show ?thesis
    by (simp add: py_str_def Let_def)
qed

text \<open>
  Claim C1, as amended. Take a raw record with a non-empty string as identifier in which
  none of \<^verbatim>\<open>card_cost\<close>, \<^verbatim>\<open>card_power\<close>, \<^verbatim>\<open>counter_amount\<close> and \<^verbatim>\<open>life\<close> is an
  infinite float or a string with a character beyond ASCII. The Transformer does not
  raise on it, and each of the four fields resolves to an integer: to zero when the value
  is absent, \<^verbatim>\<open>None\<close> or fails \<^verbatim>\<open>int\<close>, and to \<^verbatim>\<open>int\<close> of the value otherwise.
  \<^verbatim>\<open>cost\<close> and \<^verbatim>\<open>face.front.cost\<close> hold that integer; \<^verbatim>\<open>Cost\<close>, \<^verbatim>\<open>Power\<close>,
  \<^verbatim>\<open>Counter\<close> and \<^verbatim>\<open>Life\<close> hold its decimal text, or \<^verbatim>\<open>"0"\<close> when \<^verbatim>\<open>str\<close> refuses
  the integer for its digits. Nothing makes the integer non-negative.
\<close>

theorem numeric_coercion_without_infinity:
  assumes "dict_get raw ''card_set_id'' (JStr '''') = JStr s" and "s \<noteq> []"
    and "coercible (dict_get raw ''card_cost'' JNull)"
    and "coercible (dict_get raw ''card_power'' JNull)"
    and "coercible (dict_get raw ''counter_amount'' JNull)"
    and "coercible (dict_get raw ''life'' JNull)"
  shows "\<exists>c. convert_card (JDict raw) = Inr (Some (JStr s, c)) \<and>
           tcg_cost c = (case py_int (dict_get raw ''card_cost'' JNull) of Inl e \<Rightarrow> 0 | Inr n \<Rightarrow> n) \<and>
           front_cost (tcg_face_front c) = tcg_cost c \<and>
           tcg_Cost c = (case py_str (tcg_cost c) of Inl e \<Rightarrow> ''0'' | Inr t \<Rightarrow> t) \<and>
           tcg_Power c =
             (case py_str (case py_int (dict_get raw ''card_power'' JNull) of
                             Inl e \<Rightarrow> 0 | Inr n \<Rightarrow> n) of
                Inl e \<Rightarrow> ''0'' | Inr t \<Rightarrow> t) \<and>
           tcg_Counter c =
             (case py_str (case py_int (dict_get raw ''counter_amount'' JNull) of
                             Inl e \<Rightarrow> 0 | Inr n \<Rightarrow> n) of
                Inl e \<Rightarrow> ''0'' | Inr t \<Rightarrow> t) \<and>
           tcg_Life c =
             (case py_str (case py_int (dict_get raw ''life'' JNull) of
                             Inl e \<Rightarrow> 0 | Inr n \<Rightarrow> n) of
                Inl e \<Rightarrow> ''0'' | Inr t \<Rightarrow> t)"
proof -
  from assms(3-6) have fin:
    "dict_get raw ''card_cost'' JNull \<notin> {JFloat PosInf, JFloat NegInf}"
    "dict_get raw ''card_power'' JNull \<notin> {JFloat PosInf, JFloat NegInf}"
    "dict_get raw ''counter_amount'' JNull \<notin> {JFloat PosInf, JFloat NegInf}"
    "dict_get raw ''life'' JNull \<notin> {JFloat PosInf, JFloat NegInf}"
    by (simp_all add: coercible_def)
  from convert_card_total [OF assms(1,2) fin]
  obtain c where c: "convert_card (JDict raw) = Inr (Some (JStr s, c))" ..
  from convert_card_Some [OF c] fin have
    "tcg_cost c = (case py_int (dict_get raw ''card_cost'' JNull) of Inl e \<Rightarrow> 0 | Inr n \<Rightarrow> n) \<and>
     front_cost (tcg_face_front c) = tcg_cost c \<and>
     tcg_Cost c = (case py_str (tcg_cost c) of Inl e \<Rightarrow> ''0'' | Inr t \<Rightarrow> t) \<and>
     tcg_Power c =
       (case py_str (case py_int (dict_get raw ''card_power'' JNull) of
                       Inl e \<Rightarrow> 0 | Inr n \<Rightarrow> n) of
          Inl e \<Rightarrow> ''0'' | Inr t \<Rightarrow> t) \<and>
     tcg_Counter c =
       (case py_str (case py_int (dict_get raw ''counter_amount'' JNull) of
                       Inl e \<Rightarrow> 0 | Inr n \<Rightarrow> n) of
          Inl e \<Rightarrow> ''0'' | Inr t \<Rightarrow> t) \<and>
     tcg_Life c =
       (case py_str (case py_int (dict_get raw ''life'' JNull) of
                       Inl e \<Rightarrow> 0 | Inr n \<Rightarrow> n) of
          Inl e \<Rightarrow> ''0'' | Inr t \<Rightarrow> t)"
    by (auto simp: int_or_zero_finite str_int_or_zero_finite)
  with c show ?thesis by blast
qed

theorem numeric_coercion_without_infinity_witness:
  "let raw = [(''card_set_id'', JStr ''OP01-001''), (''card_cost'', JStr ''abc''),
              (''card_power'', JFloat (Finite 3)), (''counter_amount'', JStr [CHR 0x1C, CHR ''7'']),
              (''life'', JStr '' 5 '')]
   in dict_get raw ''card_set_id'' (JStr '''') = JStr ''OP01-001'' \<and>
      dict_get raw ''card_cost'' JNull = JStr ''abc'' \<and> coercible (JStr ''abc'') \<and>
      dict_get raw ''card_power'' JNull = JFloat (Finite 3) \<and> coercible (JFloat (Finite 3)) \<and>
      dict_get raw ''counter_amount'' JNull = JStr [CHR 0x1C, CHR ''7''] \<and>
      coercible (JStr [CHR 0x1C, CHR ''7'']) \<and>
      dict_get raw ''life'' JNull = JStr '' 5 '' \<and> coercible (JStr '' 5 '') \<and>
      (\<exists>c. convert_card (JDict raw) = Inr (Some (JStr ''OP01-001'', c)) \<and>
           tcg_cost c = 0 \<and> front_cost (tcg_face_front c) = 0 \<and> tcg_Cost c = ''0'' \<and>
           tcg_Power c = ''3'' \<and> tcg_Counter c = ''0'' \<and> tcg_Life c = ''5'')"
  using numeric_coercion_without_infinity
    [of "[(''card_set_id'', JStr ''OP01-001''), (''card_cost'', JStr ''abc''),
          (''card_power'', JFloat (Finite 3)), (''counter_amount'', JStr [CHR 0x1C, CHR ''7'']),
          (''life'', JStr '' 5 '')]" "''OP01-001''"]
  by (simp add: eval_values eval_convert coercible_def ascii_text_def ascii_char_def)

text \<open>
  Claim C1 as stated fails: a \<^verbatim>\<open>card_cost\<close> of \<open>-1\<close> converts, and the entry has the cost
  \<open>-1\<close> and the \<^verbatim>\<open>Cost\<close> \<^verbatim>\<open>"-1"\<close>; a \<^verbatim>\<open>card_power\<close> of \<^verbatim>\<open>"-6000"\<close> gives the
  \<^verbatim>\<open>Power\<close> \<^verbatim>\<open>"-6000"\<close>.
\<close>

theorem negative_cost_counterexample:
  "convert_to_tcg_arena
     [JDict [(''card_set_id'', JStr ''OP01-001''), (''card_cost'', JInt (- 1)),
             (''card_power'', JStr ''-6000'')]] =
   Inr [(JStr ''OP01-001'',
         \<lparr>tcg_id = JStr ''OP01-001'', tcg_name = JStr ''Unknown'', tcg_type = JStr ''Character'',
          tcg_face_front =
            \<lparr>front_name = JStr ''Unknown'', front_type = JStr ''Character'', front_cost = - 1,
             front_isHorizontal = False, front_image = JStr ''''\<rparr>,
          tcg_Color = JStr '''', tcg_cost = - 1, tcg_isHorizontal = False,
          tcg_Cost = ''-1'', tcg_Power = ''-6000'', tcg_Counter = ''0'', tcg_Life = ''0'',
          tcg_Attribute = JStr '''', tcg_Subtypes = JStr '''', tcg_Text = JStr '''',
          tcg_Rarity = JStr '''', tcg_Set = JStr ''OP01''\<rparr>)]
   \<and> int_or_zero (JInt (- 1)) = Inr (- 1) \<and> (- 1 :: int) < 0"
  by (simp add: eval_values eval_convert)

text \<open>
  The exception the \<^verbatim>\<open>try\<close> blocks miss: an infinite \<^verbatim>\<open>card_cost\<close> ends the
  Transformer with \<^verbatim>\<open>OverflowError\<close>.
\<close>

lemma infinite_cost_raises:
  "convert_to_tcg_arena
     [JDict [(''card_set_id'', JStr ''OP01-001''), (''card_cost'', JFloat PosInf)]] =
   Inl OverflowError"
  by (simp add: eval_values eval_convert)

text \<open>
  Claim C4. Let \<open>g\<close> be all of the string \<open>s\<close> if \<open>s\<close> has no \<^verbatim>\<open>"-"\<close>, and otherwise
  what stands before the last \<^verbatim>\<open>"-"\<close> of \<open>s\<close>. Then line 136 derives the group code
  \<open>g\<close> from the identifier \<open>s\<close> without an exception, and every entry the Transformer
  stores for a record whose identifier is \<open>s\<close> has the \<^verbatim>\<open>Set\<close> \<open>g\<close>.
\<close>

theorem group_code_before_last_separator:
  assumes "CHR ''-'' \<notin> set s \<and> g = s \<or> (\<exists>suf. s = g @ CHR ''-'' # suf \<and> CHR ''-'' \<notin> set suf)"
  shows "set_code_of (JStr s) = Inr (JStr g) \<and>
         (\<forall>raw k c. dict_get raw ''card_set_id'' (JStr '''') = JStr s \<and>
                    convert_card (JDict raw) = Inr (Some (k, c)) \<longrightarrow>
                    tcg_Set c = JStr g)"
proof -
  from assms have g: "(if CHR ''-'' \<in> set s then hd (rsplit1 CHR ''-'' s) else s) = g"
    by (auto simp: rsplit1_last)
  have code: "set_code_of (JStr s) = Inr (JStr g)"
    by (simp only: set_code_of_str g)
  have "tcg_Set c = JStr g"
    if id: "dict_get raw ''card_set_id'' (JStr '''') = JStr s"
      and conv: "convert_card (JDict raw) = Inr (Some (k, c))" for raw k c
  proof -
    from convert_card_Some [OF conv] id
    have "tcg_Set c = JStr (if CHR ''-'' \<in> set s then hd (rsplit1 CHR ''-'' s) else s)"
      by auto
    with g show ?thesis by simp
  qed
  with code show ?thesis by blast
qed

theorem group_code_before_last_separator_witness:
  "(\<exists>suf. ''OP01-077'' = ''OP01'' @ CHR ''-'' # suf \<and> CHR ''-'' \<notin> set suf)
   \<and> set_code_of (JStr ''OP01-077'') = Inr (JStr ''OP01'')
   \<and> dict_get [(''card_set_id'', JStr ''OP01-077'')] ''card_set_id'' (JStr '''') = JStr ''OP01-077''
   \<and> convert_card (JDict [(''card_set_id'', JStr ''OP01-077'')]) =
     Inr (Some (JStr ''OP01-077'', bare_entry ''OP01-077'' ''OP01''))
   \<and> tcg_Set (bare_entry ''OP01-077'' ''OP01'') = JStr ''OP01''
   \<and> CHR ''-'' \<notin> set ''PROMO''
   \<and> set_code_of (JStr ''PROMO'') = Inr (JStr ''PROMO'')
   \<and> dict_get [(''card_set_id'', JStr ''PROMO'')] ''card_set_id'' (JStr '''') = JStr ''PROMO''
   \<and> convert_card (JDict [(''card_set_id'', JStr ''PROMO'')]) =
     Inr (Some (JStr ''PROMO'', bare_entry ''PROMO'' ''PROMO''))
   \<and> tcg_Set (bare_entry ''PROMO'' ''PROMO'') = JStr ''PROMO''"
  using
    group_code_before_last_separator [of "''OP01-077''" "''OP01''", THEN conjunct1]
    group_code_before_last_separator [of "''OP01-077''" "''OP01''", THEN conjunct2, rule_format,
      of "[(''card_set_id'', JStr ''OP01-077'')]" "JStr ''OP01-077''"
         "bare_entry ''OP01-077'' ''OP01''"]
    group_code_before_last_separator [of "''PROMO''" "''PROMO''", THEN conjunct1]
    group_code_before_last_separator [of "''PROMO''" "''PROMO''", THEN conjunct2, rule_format,
      of "[(''card_set_id'', JStr ''PROMO'')]" "JStr ''PROMO''" "bare_entry ''PROMO'' ''PROMO''"]
  by (simp add: eval_values eval_convert)

text \<open>
  Claim C5. In every entry the Transformer stores, \<^verbatim>\<open>type\<close> is the record's
  \<^verbatim>\<open>card_type\<close> (\<^verbatim>\<open>"Character"\<close> when the key is absent), and \<^verbatim>\<open>isHorizontal\<close>, at the
  top and in \<^verbatim>\<open>face.front\<close>, is true exactly when that value is the string
  \<^verbatim>\<open>"Stage"\<close>.
\<close>

theorem horizontal_iff_stage:
  assumes "convert_card (JDict raw) = Inr (Some (k, c))"
  shows "tcg_type c = dict_get raw ''card_type'' (JStr ''Character'') \<and>
         (tcg_isHorizontal c \<longleftrightarrow> tcg_type c = JStr ''Stage'') \<and>
         (front_isHorizontal (tcg_face_front c) \<longleftrightarrow> tcg_type c = JStr ''Stage'')"
  using convert_card_Some [OF assms] by auto

theorem horizontal_iff_stage_witness:
  "let stage = (bare_entry ''OP01-001'' ''OP01'')
         \<lparr>tcg_type := JStr ''Stage'', tcg_isHorizontal := True,
          tcg_face_front :=
            \<lparr>front_name = JStr ''Unknown'', front_type = JStr ''Stage'', front_cost = 0,
             front_isHorizontal = True, front_image = JStr ''''\<rparr>\<rparr>;
       lower = (bare_entry ''OP01-002'' ''OP01'')
         \<lparr>tcg_type := JStr ''stage'',
          tcg_face_front :=
            \<lparr>front_name = JStr ''Unknown'', front_type = JStr ''stage'', front_cost = 0,
             front_isHorizontal = False, front_image = JStr ''''\<rparr>\<rparr>
   in convert_card (JDict [(''card_set_id'', JStr ''OP01-001''), (''card_type'', JStr ''Stage'')]) =
        Inr (Some (JStr ''OP01-001'', stage))
      \<and> tcg_isHorizontal stage \<and> front_isHorizontal (tcg_face_front stage)
      \<and> convert_card (JDict [(''card_set_id'', JStr ''OP01-002''), (''card_type'', JStr ''stage'')]) =
        Inr (Some (JStr ''OP01-002'', lower))
      \<and> \<not> tcg_isHorizontal lower \<and> \<not> front_isHorizontal (tcg_face_front lower)"
  using
    horizontal_iff_stage [of "[(''card_set_id'', JStr ''OP01-001''), (''card_type'', JStr ''Stage'')]"
      "JStr ''OP01-001''"
      "(bare_entry ''OP01-001'' ''OP01'')
         \<lparr>tcg_type := JStr ''Stage'', tcg_isHorizontal := True,
          tcg_face_front :=
            \<lparr>front_name = JStr ''Unknown'', front_type = JStr ''Stage'', front_cost = 0,
             front_isHorizontal = True, front_image = JStr ''''\<rparr>\<rparr>"]
    horizontal_iff_stage [of "[(''card_set_id'', JStr ''OP01-002''), (''card_type'', JStr ''stage'')]"
      "JStr ''OP01-002''"
      "(bare_entry ''OP01-002'' ''OP01'')
         \<lparr>tcg_type := JStr ''stage'',
          tcg_face_front :=
            \<lparr>front_name = JStr ''Unknown'', front_type = JStr ''stage'', front_cost = 0,
             front_isHorizontal = False, front_image = JStr ''''\<rparr>\<rparr>"]
  by (simp add: eval_values eval_convert)

text \<open>
  Claim C10. In every entry the Transformer stores, a record without the key
  \<^verbatim>\<open>card_name\<close> has the name \<^verbatim>\<open>"Unknown"\<close>, and a record without the key
  \<^verbatim>\<open>card_type\<close> has the type \<^verbatim>\<open>"Character"\<close> and \<^verbatim>\<open>isHorizontal\<close> false, each at the
  top and in \<^verbatim>\<open>face.front\<close>.
\<close>

theorem absent_name_and_type_defaults:
  assumes "convert_card (JDict raw) = Inr (Some (k, c))"
  shows "(map_of raw ''card_name'' = None \<longrightarrow>
            tcg_name c = JStr ''Unknown'' \<and> front_name (tcg_face_front c) = JStr ''Unknown'') \<and>
         (map_of raw ''card_type'' = None \<longrightarrow>
            tcg_type c = JStr ''Character'' \<and> front_type (tcg_face_front c) = JStr ''Character'' \<and>
            \<not> tcg_isHorizontal c \<and> \<not> front_isHorizontal (tcg_face_front c))"
  using convert_card_Some [OF assms] by (auto simp: dict_get_def)

theorem absent_name_and_type_defaults_witness:
  "let raw = [(''card_set_id'', JStr ''OP01-001''), (''card_cost'', JInt 2)];
       entry = (bare_entry ''OP01-001'' ''OP01'')
         \<lparr>tcg_cost := 2, tcg_Cost := ''2'',
          tcg_face_front :=
            \<lparr>front_name = JStr ''Unknown'', front_type = JStr ''Character'', front_cost = 2,
             front_isHorizontal = False, front_image = JStr ''''\<rparr>\<rparr>
   in convert_card (JDict raw) = Inr (Some (JStr ''OP01-001'', entry))
      \<and> map_of raw ''card_name'' = None \<and> map_of raw ''card_type'' = None
      \<and> tcg_name entry = JStr ''Unknown'' \<and> front_name (tcg_face_front entry) = JStr ''Unknown''
      \<and> tcg_type entry = JStr ''Character''
      \<and> front_type (tcg_face_front entry) = JStr ''Character''
      \<and> \<not> tcg_isHorizontal entry \<and> \<not> front_isHorizontal (tcg_face_front entry)"
  using
    absent_name_and_type_defaults [of "[(''card_set_id'', JStr ''OP01-001''), (''card_cost'', JInt 2)]"
      "JStr ''OP01-001''"
      "(bare_entry ''OP01-001'' ''OP01'')
         \<lparr>tcg_cost := 2, tcg_Cost := ''2'',
          tcg_face_front :=
            \<lparr>front_name = JStr ''Unknown'', front_type = JStr ''Character'', front_cost = 2,
             front_isHorizontal = False, front_image = JStr ''''\<rparr>\<rparr>"]
  by (simp add: eval_values eval_convert)

section \<open>Records without an identifier\<close>

lemma convert_card_None:
  assumes "convert_card r = Inr None"
  shows "\<exists>d. r = JDict d \<and> \<not> truthy (dict_get d ''card_set_id'' (JStr ''''))"
proof -
  from assms obtain d where r: "r = JDict d" by (cases r) auto
  have "\<not> truthy (dict_get d ''card_set_id'' (JStr ''''))"
  proof
    assume "truthy (dict_get d ''card_set_id'' (JStr ''''))"
    with assms r show False
      by (auto simp: Let_def and_then_Inr split: if_splits)
  qed
  with r show ?thesis by blast
qed

lemma convert_card_lacking:
  assumes "map_of d ''card_set_id'' = None \<or> map_of d ''card_set_id'' = Some (JStr '''')"
  shows "convert_card (JDict d) = Inr None"
  using assms by (auto simp: dict_get_def)

lemma convert_loop_append:
  "convert_loop (xs @ ys) cl = and_then (convert_loop xs cl) (convert_loop ys)"
proof (induction xs arbitrary: cl)
  case Nil
  show ?case by (simp add: and_then_def)
next
  case (Cons x xs)
  show ?case
  proof (cases "convert_card x")
    case (Inl e)
    then show ?thesis by (simp add: and_then_def)
  next
    case (Inr p)
    show ?thesis
    proof (cases p)
      case None
      with Inr show ?thesis by (simp add: Cons.IH)
    next
      case (Some kc)
      obtain k c where "kc = (k, c)" by (cases kc)
      with Inr Some show ?thesis by (simp add: Cons.IH)
    qed
  qed
qed

lemma key_eq_str_right: "key_eq v (JStr s) \<longleftrightarrow> v = JStr s"
  by (cases v) (auto simp: key_eq_def)

lemma dict_set_keys_str: "fst ` set (dict_set d (JStr s) v) = insert (JStr s) (fst ` set d)"
proof (induction d)
  case Nil
  show ?case by simp
next
  case (Cons kv d)
  obtain k' v' where kv: "kv = (k', v')" by (cases kv)
  show ?case
  proof (cases "k' = JStr s")
    case True
    with kv show ?thesis by (simp add: key_eq_str_right)
  next
    case False
    with kv Cons.IH show ?thesis by (auto simp: key_eq_str_right)
  qed
qed

lemma convert_loop_keys:
  assumes "convert_loop rs cl = Inr m"
  shows "fst ` set m = fst ` set cl \<union> {JStr s |s. s \<noteq> [] \<and> (\<exists>r\<in>set rs. card_set_id_is s r)}"
  using assms
proof (induction rs arbitrary: cl)
  case Nil
  then show ?case by auto
next
  case (Cons r rs)
  from Cons.prems obtain p where p: "convert_card r = Inr p"
    by (cases "convert_card r") auto
  show ?case
  proof (cases p)
    case None
    with p obtain d where d: "r = JDict d" "\<not> truthy (dict_get d ''card_set_id'' (JStr ''''))"
      using convert_card_None by blast
    then have "\<not> (s \<noteq> [] \<and> card_set_id_is s r)" for s
      by (auto simp: card_set_id_is_def)
    then have no: "{JStr s |s. s \<noteq> [] \<and> (\<exists>x\<in>set (r # rs). card_set_id_is s x)} =
        {JStr s |s. s \<noteq> [] \<and> (\<exists>x\<in>set rs. card_set_id_is s x)}"
      by auto
    from Cons.prems p None have "convert_loop rs cl = Inr m" by simp
    from Cons.IH [OF this] show ?thesis unfolding no .
  next
    case (Some kc)
    obtain k c where kc: "kc = (k, c)" by (cases kc)
    from convert_card_Some [of r k c] p Some kc
    obtain d s where d: "r = JDict d" "dict_get d ''card_set_id'' (JStr '''') = JStr s"
      "s \<noteq> []" "k = JStr s"
      by auto
    then have "s' \<noteq> [] \<and> card_set_id_is s' r \<longleftrightarrow> s' = s" for s'
      by (auto simp: card_set_id_is_def)
    then have yes: "{JStr s |s. s \<noteq> [] \<and> (\<exists>x\<in>set (r # rs). card_set_id_is s x)} =
        insert (JStr s) {JStr s |s. s \<noteq> [] \<and> (\<exists>x\<in>set rs. card_set_id_is s x)}"
      by auto
    from Cons.prems p Some kc have "convert_loop rs (dict_set cl k c) = Inr m" by simp
    from Cons.IH [OF this] have
      "fst ` set m = fst ` set (dict_set cl k c) \<union>
         {JStr s |s. s \<noteq> [] \<and> (\<exists>r\<in>set rs. card_set_id_is s r)}" .
    with d(4) show ?thesis
      unfolding yes by (simp add: dict_set_keys_str)
  qed
qed

text \<open>
  Claim C7. A raw record whose \<^verbatim>\<open>card_set_id\<close> is absent or the empty string is skipped
  without an exception; the Transformer's result, an exception included, is the same
  with the record and without it; and when the Transformer returns a mapping, its keys
  are the non-empty strings that are the \<^verbatim>\<open>card_set_id\<close> of a record of the input.
\<close>

theorem records_without_identifier_skipped:
  assumes "map_of d ''card_set_id'' = None \<or> map_of d ''card_set_id'' = Some (JStr '''')"
  shows "convert_card (JDict d) = Inr None \<and>
         convert_to_tcg_arena (xs @ JDict d # ys) = convert_to_tcg_arena (xs @ ys) \<and>
         (\<forall>m. convert_to_tcg_arena (xs @ JDict d # ys) = Inr m \<longrightarrow>
            fst ` set m =
              {JStr s |s. s \<noteq> [] \<and> (\<exists>r\<in>set (xs @ JDict d # ys). card_set_id_is s r)})"
proof -
  have skip: "convert_card (JDict d) = Inr None"
    using assms by (rule convert_card_lacking)
  have "convert_loop (JDict d # ys) cl = convert_loop ys cl" for cl
    by (simp only: convert_loop.simps skip sum.case option.case)
  then have "convert_loop (JDict d # ys) = convert_loop ys"
    by (rule ext)
  then have "convert_loop (xs @ JDict d # ys) [] = convert_loop (xs @ ys) []"
    by (simp add: convert_loop_append)
  then have same: "convert_to_tcg_arena (xs @ JDict d # ys) = convert_to_tcg_arena (xs @ ys)"
    by (simp add: convert_to_tcg_arena_def)
  have "fst ` set m =
          {JStr s |s. s \<noteq> [] \<and> (\<exists>r\<in>set (xs @ JDict d # ys). card_set_id_is s r)}"
    if "convert_to_tcg_arena (xs @ JDict d # ys) = Inr m" for m
    using convert_loop_keys [of "xs @ JDict d # ys" "[]" m] that
    by (simp add: convert_to_tcg_arena_def)
  with skip same show ?thesis by blast
qed

theorem records_without_identifier_skipped_witness:
  "let nameless = JDict [(''card_name'', JStr ''Nameless'')];
       a = JDict [(''card_set_id'', JStr ''OP01-077'')];
       b = JDict [(''card_set_id'', JStr ''PROMO'')];
       m = [(JStr ''OP01-077'', bare_entry ''OP01-077'' ''OP01''),
            (JStr ''PROMO'', bare_entry ''PROMO'' ''PROMO'')]
   in map_of [(''card_name'', JStr ''Nameless'')] ''card_set_id'' = None
      \<and> convert_card nameless = Inr None
      \<and> convert_to_tcg_arena [a, nameless, b] = Inr m
      \<and> convert_to_tcg_arena [a, b] = Inr m
      \<and> fst ` set m = {JStr ''OP01-077'', JStr ''PROMO''}"
  using records_without_identifier_skipped [of "[(''card_name'', JStr ''Nameless'')]"
      "[JDict [(''card_set_id'', JStr ''OP01-077'')]]"
      "[JDict [(''card_set_id'', JStr ''PROMO'')]]"]
  by (simp add: eval_values eval_convert)

section \<open>The Collector\<close>

subsection \<open>The calls of \<^verbatim>\<open>add_cards\<close> are one pass over the fetch stream\<close>

lemma key_eq_str: "key_eq (JStr s) v \<longleftrightarrow> v = JStr s"
  by (cases v) (auto simp: key_eq_def)

lemma add_cards_loop_count:
  "add_cards_loop xs c st = Inr (c', st') \<Longrightarrow> \<exists>d'. add_cards_loop xs d st = Inr (d', st')"
proof (induction xs arbitrary: c d st)
  case Nil
  then show ?case by simp
next
  case (Cons x xs)
  from Cons.prems obtain new st1 where x: "add_card x st = Inr (new, st1)"
    by (cases "add_card x st") auto
  with Cons.prems have "add_cards_loop xs (if new then c + 1 else c) st1 = Inr (c', st')"
    by simp
  then obtain d' where "add_cards_loop xs (if new then d + 1 else d) st1 = Inr (d', st')"
    using Cons.IH by blast
  with x show ?case by simp
qed

lemma add_cards_loop_count_err:
  "add_cards_loop xs c st = Inl e \<Longrightarrow> add_cards_loop xs d st = Inl e"
proof (induction xs arbitrary: c d st)
  case Nil
  then show ?case by simp
next
  case (Cons x xs)
  show ?case
  proof (cases "add_card x st")
    case (Inl e')
    with Cons.prems show ?thesis by simp
  next
    case (Inr p)
    obtain new st1 where p: "p = (new, st1)" by (cases p)
    with Inr Cons.prems have "add_cards_loop xs (if new then c + 1 else c) st1 = Inl e"
      by simp
    then have "add_cards_loop xs (if new then d + 1 else d) st1 = Inl e"
      by (rule Cons.IH)
    with Inr p show ?thesis by simp
  qed
qed

lemma add_cards_loop_add_all:
  "(case add_cards_loop xs c st of Inl e \<Rightarrow> Inl e | Inr (n, st') \<Rightarrow> Inr st') = add_all xs st"
proof (cases "add_cards_loop xs c st")
  case (Inl e)
  then have "add_cards_loop xs 0 st = Inl e" by (rule add_cards_loop_count_err)
  with Inl show ?thesis by (simp add: add_all_def add_cards_def)
next
  case (Inr p)
  obtain c' st' where p: "p = (c', st')" by (cases p)
  with Inr obtain d' where "add_cards_loop xs 0 st = Inr (d', st')"
    using add_cards_loop_count by blast
  with Inr p show ?thesis by (simp add: add_all_def add_cards_def)
qed

lemma add_cards_loop_append:
  "add_cards_loop (xs @ ys) c st =
     (case add_cards_loop xs c st of Inl e \<Rightarrow> Inl e | Inr (c', st') \<Rightarrow> add_cards_loop ys c' st')"
proof (induction xs arbitrary: c st)
  case Nil
  show ?case by simp
next
  case (Cons x xs)
  show ?case
  proof (cases "add_card x st")
    case (Inl e)
    then show ?thesis by simp
  next
    case (Inr p)
    obtain new st1 where "p = (new, st1)" by (cases p)
    with Inr show ?thesis by (simp add: Cons.IH)
  qed
qed

lemma add_all_append: "add_all (xs @ ys) st = and_then (add_all xs st) (add_all ys)"
proof (cases "add_cards_loop xs 0 st")
  case (Inl e)
  then show ?thesis by (simp add: add_all_def add_cards_def add_cards_loop_append and_then_def)
next
  case (Inr p)
  obtain c' st' where p: "p = (c', st')" by (cases p)
  have "(case add_cards_loop ys c' st' of Inl e \<Rightarrow> Inl e | Inr (n, st'') \<Rightarrow> Inr st'') = add_all ys st'"
    by (rule add_cards_loop_add_all)
  with Inr p show ?thesis
    by (simp add: add_all_def add_cards_def add_cards_loop_append and_then_def)
qed

lemma add_all_Nil: "add_all [] st = Inr st"
  by (simp add: add_all_def add_cards_def)

lemma fetch_each_stream:
  "fetch_each net path sids i st =
     and_then (add_all (fetch_each_cards net path sids i) st) (\<lambda>st'. Inr (i + length sids, st'))"
proof (induction sids arbitrary: i st)
  case Nil
  show ?case by (simp add: add_all_Nil and_then_def)
next
  case (Cons sid sids)
  let ?g = "fetch_json net i (API_BASE @ path @ sid @ ''/'')"
  show ?case
  proof (cases "add_cards ?g st")
    case (Inl e)
    then have "add_all ?g st = Inl e" by (simp add: add_all_def)
    with Inl show ?thesis by (simp add: add_all_append and_then_def)
  next
    case (Inr p)
    obtain n st1 where p: "p = (n, st1)" by (cases p)
    with Inr have "add_all ?g st = Inr st1" by (simp add: add_all_def)
    with Inr p show ?thesis by (simp add: add_all_append and_then_def Cons.IH)
  qed
qed

lemma fetch_sets_stream:
  "fetch_sets net st =
     and_then (add_all (if fetch_json net 0 (API_BASE @ ''/allSetCards/'') \<noteq> []
                        then fetch_json net 0 (API_BASE @ ''/allSetCards/'')
                        else fetch_each_cards net ''/sets/'' SET_IDS 1) st)
       (\<lambda>st'. Inr (if fetch_json net 0 (API_BASE @ ''/allSetCards/'') \<noteq> [] then 1
                    else 1 + length SET_IDS, st'))"
proof (cases "fetch_json net 0 (API_BASE @ ''/allSetCards/'') \<noteq> []")
  case True
  then show ?thesis
    by (cases "add_cards (fetch_json net 0 (API_BASE @ ''/allSetCards/'')) st")
       (auto simp: fetch_sets_def add_all_def and_then_def)
next
  case False
  then show ?thesis
    by (simp add: fetch_sets_def fetch_each_stream)
qed

lemma fetch_decks_stream:
  "fetch_decks net i st =
     and_then (add_all (if fetch_json net i (API_BASE @ ''/allSTCards/'') \<noteq> []
                        then fetch_json net i (API_BASE @ ''/allSTCards/'')
                        else fetch_each_cards net ''/decks/'' ST_IDS (Suc i)) st)
       (\<lambda>st'. Inr (if fetch_json net i (API_BASE @ ''/allSTCards/'') \<noteq> [] then Suc i
                    else Suc i + length ST_IDS, st'))"
proof (cases "fetch_json net i (API_BASE @ ''/allSTCards/'') \<noteq> []")
  case True
  then show ?thesis
    by (cases "add_cards (fetch_json net i (API_BASE @ ''/allSTCards/'')) st")
       (auto simp: fetch_decks_def add_all_def and_then_def)
next
  case False
  then show ?thesis
    by (simp add: fetch_decks_def fetch_each_stream)
qed

lemma fetch_promos_stream:
  "fetch_promos net j st = add_all (fetch_json net j (API_BASE @ ''/sets/PRB-01/'')) st"
proof (cases "fetch_json net j (API_BASE @ ''/sets/PRB-01/'') \<noteq> []")
  case True
  then show ?thesis
    by (cases "add_cards (fetch_json net j (API_BASE @ ''/sets/PRB-01/'')) st")
       (auto simp: fetch_promos_def add_all_def)
next
  case False
  then show ?thesis
    by (simp add: fetch_promos_def add_all_Nil)
qed

lemma fetch_all_cards_stream:
  "fetch_all_cards net =
     and_then (add_all (fetch_stream net) \<lparr>all_raw = [], seen = []\<rparr>) (\<lambda>st. Inr (all_raw st))"
proof -
  define g1 i g2 j g3 where
    "g1 = (if fetch_json net 0 (API_BASE @ ''/allSetCards/'') \<noteq> []
           then fetch_json net 0 (API_BASE @ ''/allSetCards/'')
           else fetch_each_cards net ''/sets/'' SET_IDS 1)" and
    "i = (if fetch_json net 0 (API_BASE @ ''/allSetCards/'') \<noteq> [] then 1
          else 1 + length SET_IDS)" and
    "g2 = (if fetch_json net i (API_BASE @ ''/allSTCards/'') \<noteq> []
           then fetch_json net i (API_BASE @ ''/allSTCards/'')
           else fetch_each_cards net ''/decks/'' ST_IDS (Suc i))" and
    "j = (if fetch_json net i (API_BASE @ ''/allSTCards/'') \<noteq> [] then Suc i
          else Suc i + length ST_IDS)" and
    "g3 = fetch_json net j (API_BASE @ ''/sets/PRB-01/'')"
  have stream: "fetch_stream net = g1 @ g2 @ g3"
    unfolding g1_def i_def g2_def j_def g3_def fetch_stream_def Let_def by (rule refl)
  have sets: "fetch_sets net st = and_then (add_all g1 st) (\<lambda>st'. Inr (i, st'))" for st
    unfolding g1_def i_def by (rule fetch_sets_stream)
  have decks: "fetch_decks net i st = and_then (add_all g2 st) (\<lambda>st'. Inr (j, st'))" for st
    unfolding g2_def j_def by (rule fetch_decks_stream)
  have promos: "fetch_promos net j st = add_all g3 st" for st
    unfolding g3_def by (rule fetch_promos_stream)
  show ?thesis
  proof (cases "add_all g1 \<lparr>all_raw = [], seen = []\<rparr>")
    case (Inl e)
    then show ?thesis
      by (simp add: fetch_all_cards_def stream sets add_all_append and_then_def)
  next
    case st1: (Inr st1)
    show ?thesis
    proof (cases "add_all g2 st1")
      case (Inl e)
      with st1 show ?thesis
        by (simp add: fetch_all_cards_def stream sets decks add_all_append and_then_def)
    next
      case (Inr st2)
      with st1 show ?thesis
        by (simp add: fetch_all_cards_def stream sets decks promos add_all_append and_then_def)
    qed
  qed
qed

lemma add_all_Cons:
  "add_all (r # rs) st =
     (case add_card r st of Inl e \<Rightarrow> Inl e | Inr (new, st') \<Rightarrow> add_all rs st')"
proof (cases "add_card r st")
  case (Inl e)
  then show ?thesis by (simp add: add_all_def add_cards_def)
next
  case (Inr p)
  obtain new st1 where p: "p = (new, st1)" by (cases p)
  have "(case add_cards_loop rs (if new then 0 + 1 else 0) st1 of
           Inl e \<Rightarrow> Inl e | Inr (n, st') \<Rightarrow> Inr st') = add_all rs st1"
    by (rule add_cards_loop_add_all)
  with Inr p show ?thesis by (simp add: add_all_def add_cards_def)
qed

subsection \<open>What a pass keeps\<close>

text \<open>The two outcomes of a pass of the loop that does not raise.\<close>

lemma add_card_Inr:
  assumes "add_card r st = Inr (new, st')"
  obtains
    (kept) d where "r = JDict d" "\<not> has_marker r"
      "truthy (dict_get d ''card_set_id'' (JStr ''''))"
      "hashable (dict_get d ''card_set_id'' (JStr ''''))"
      "\<not> list_ex (key_eq (dict_get d ''card_set_id'' (JStr ''''))) (seen st)"
      "st' = st\<lparr>seen := dict_get d ''card_set_id'' (JStr '''') # seen st,
                 all_raw := all_raw st @ [r]\<rparr>"
  | (skipped) d where "r = JDict d" "st' = st"
      "has_marker r \<or> \<not> truthy (dict_get d ''card_set_id'' (JStr '''')) \<or>
       list_ex (key_eq (dict_get d ''card_set_id'' (JStr ''''))) (seen st)"
proof -
  from assms obtain d where r: "r = JDict d"
    by (cases r) auto
  let ?cid = "dict_get d ''card_set_id'' (JStr '''')"
  let ?img = "py_or (dict_get d ''card_image_id'' JNull) (JStr '''')"
  from assms r obtain marked where m: "py_in ''_p'' ?img = Inr marked"
    by (cases "py_in ''_p'' ?img") (auto simp: Let_def and_then_def)
  then have hm: "has_marker r \<longleftrightarrow> marked"
    by (simp add: has_marker_def r)
  show thesis
  proof (cases "\<not> marked \<and> truthy ?cid \<and> \<not> list_ex (key_eq ?cid) (seen st)")
    case True
    with assms r m have "hashable ?cid"
      by (auto simp: Let_def and_then_def split: if_splits)
    moreover from this True assms r m have
      "st' = st\<lparr>seen := ?cid # seen st, all_raw := all_raw st @ [r]\<rparr>"
      by (auto simp: Let_def and_then_def)
    ultimately show ?thesis using True hm r by (intro kept [of d]) auto
  next
    case False
    with assms r m have "st' = st"
      by (auto simp: Let_def and_then_def split: if_splits)
    with False hm r show ?thesis by (intro skipped [of d]) auto
  qed
qed

lemma add_card_marked: "has_marker r \<Longrightarrow> add_card r st = Inr (False, st)"
  by (cases r) (auto simp: has_marker_def Let_def and_then_def)

lemma list_ex_key_eq_str: "list_ex (key_eq (JStr s)) xs \<longleftrightarrow> JStr s \<in> set xs"
  by (auto simp: list_ex_iff key_eq_str)

lemma add_all_bearers:
  assumes "add_all cards st = Inr st'" and "s \<noteq> []"
  shows "filter (card_set_id_is s) (all_raw st') =
           filter (card_set_id_is s) (all_raw st) @
           (if JStr s \<in> set (seen st) then []
            else take 1 (filter (\<lambda>r. card_set_id_is s r \<and> \<not> has_marker r) cards))
         \<and> (JStr s \<in> set (seen st') \<longleftrightarrow>
              JStr s \<in> set (seen st) \<or> (\<exists>r\<in>set cards. card_set_id_is s r \<and> \<not> has_marker r))"
  using assms(1)
proof (induction cards arbitrary: st)
  case Nil
  then show ?case by (simp add: add_all_Nil)
next
  case (Cons r rs)
  from Cons.prems obtain new st1 where step: "add_card r st = Inr (new, st1)"
    and rest: "add_all rs st1 = Inr st'"
    by (cases "add_card r st") (auto simp: add_all_Cons)
  note IH = Cons.IH [OF rest]
  from step show ?case
  proof (cases rule: add_card_Inr)
    case (kept d)
    let ?cid = "dict_get d ''card_set_id'' (JStr '''')"
    show ?thesis
    proof (cases "?cid = JStr s")
      case True
      with kept have "card_set_id_is s r" and "JStr s \<notin> set (seen st)"
        by (simp_all add: card_set_id_is_def list_ex_key_eq_str)
      with kept True IH show ?thesis by simp
    next
      case False
      with kept have "\<not> card_set_id_is s r"
        by (simp add: card_set_id_is_def)
      with kept False IH show ?thesis by auto
    qed
  next
    case (skipped d)
    let ?cid = "dict_get d ''card_set_id'' (JStr '''')"
    have "\<not> (card_set_id_is s r \<and> \<not> has_marker r) \<or> JStr s \<in> set (seen st)"
    proof (cases "card_set_id_is s r \<and> \<not> has_marker r")
      case True
      with skipped have "?cid = JStr s" by (simp add: card_set_id_is_def)
      with skipped True assms(2) show ?thesis by (simp add: list_ex_key_eq_str)
    next
      case False
      then show ?thesis by simp
    qed
    with skipped IH show ?thesis by auto
  qed
qed

lemma add_all_members:
  assumes "add_all cards st = Inr st'" and "r \<in> set (all_raw st')"
  shows "r \<in> set (all_raw st) \<or>
         (r \<in> set cards \<and> \<not> has_marker r \<and>
          (\<exists>d. r = JDict d \<and> truthy (dict_get d ''card_set_id'' (JStr ''''))))"
  using assms
proof (induction cards arbitrary: st)
  case Nil
  then show ?case by (simp add: add_all_Nil)
next
  case (Cons x xs)
  from Cons.prems obtain new st1 where step: "add_card x st = Inr (new, st1)"
    and rest: "add_all xs st1 = Inr st'"
    by (cases "add_card x st") (auto simp: add_all_Cons)
  from Cons.IH [OF rest Cons.prems(2)] consider "r \<in> set (all_raw st1)"
    | "r \<in> set xs \<and> \<not> has_marker r \<and>
       (\<exists>d. r = JDict d \<and> truthy (dict_get d ''card_set_id'' (JStr '''')))"
    by blast
  then show ?case
  proof cases
    case 1
    from step show ?thesis
    proof (cases rule: add_card_Inr)
      case (kept d)
      with 1 show ?thesis by auto
    next
      case (skipped d)
      with 1 show ?thesis by simp
    qed
  next
    case 2
    then show ?thesis by simp
  qed
qed

lemma fetch_all_cards_Inr:
  assumes "fetch_all_cards net = Inr out"
  obtains st where "add_all (fetch_stream net) \<lparr>all_raw = [], seen = []\<rparr> = Inr st"
    and "out = all_raw st"
  using assms unfolding fetch_all_cards_stream
  by (cases "add_all (fetch_stream net) \<lparr>all_raw = [], seen = []\<rparr>") (auto simp: and_then_def)

lemma has_marker_substring:
  assumes "map_of d ''card_image_id'' = Some (JStr img)"
  shows "has_marker (JDict d) \<longleftrightarrow> (\<exists>a b. img = a @ ''_p'' @ b)"
proof (cases "img = []")
  case True
  with assms show ?thesis
    by (simp add: has_marker_def dict_get_def py_or_def)
next
  case False
  with assms show ?thesis
    by (simp add: has_marker_def dict_get_def py_or_def is_substring_iff)
qed

text \<open>The Collector returns when every record of the stream is of the expected kind.\<close>

lemma py_in_text_or_null:
  assumes "text_or_null v"
  shows "\<exists>marked. py_in needle (py_or v (JStr '''')) = Inr marked"
proof (cases "truthy v")
  case True
  with assms show ?thesis
    by (cases v) (simp_all add: text_or_null_def py_or_def)
next
  case False
  then show ?thesis by (simp add: py_or_def)
qed

lemma add_card_returns:
  assumes "text_keyed r"
  shows "\<exists>new st'. add_card r st = Inr (new, st')"
proof -
  from assms obtain d where r: "r = JDict d"
    and cid: "text_or_null (dict_get d ''card_set_id'' (JStr ''''))"
    and img: "text_or_null (dict_get d ''card_image_id'' JNull)"
    by (cases r) (simp_all add: text_keyed_def)
  from img obtain marked where m:
    "py_in ''_p'' (py_or (dict_get d ''card_image_id'' JNull) (JStr '''')) = Inr marked"
    using py_in_text_or_null by blast
  from cid have h: "hashable (dict_get d ''card_set_id'' (JStr ''''))"
    by (cases "dict_get d ''card_set_id'' (JStr '''')") (simp_all add: text_or_null_def)
  show ?thesis
    unfolding r by (auto simp: Let_def and_then_def m h)
qed

lemma add_all_returns:
  assumes "list_all text_keyed cards"
  shows "\<exists>st'. add_all cards st = Inr st'"
  using assms
proof (induction cards arbitrary: st)
  case Nil
  show ?case by (simp add: add_all_Nil)
next
  case (Cons r rs)
  from Cons.prems have r: "text_keyed r" and rs: "list_all text_keyed rs"
    by simp_all
  from r obtain new st1 where step: "add_card r st = Inr (new, st1)"
    using add_card_returns by blast
  from rs obtain st' where "add_all rs st1 = Inr st'"
    using Cons.IH by blast
  with step show ?case by (simp add: add_all_Cons)
qed

lemma fetch_all_cards_returns:
  assumes "list_all text_keyed (fetch_stream net)"
  shows "\<exists>out. fetch_all_cards net = Inr out"
proof -
  from assms obtain st where "add_all (fetch_stream net) \<lparr>all_raw = [], seen = []\<rparr> = Inr st"
    using add_all_returns by blast
  then show ?thesis by (simp add: fetch_all_cards_stream and_then_def)
qed

text \<open>
  Claim C2, as amended. When the Collector returns, no record of its output has an empty
  or absent \<^verbatim>\<open>card_set_id\<close>. For every non-empty string \<open>s\<close>, the output holds at most one
  record that bears \<open>s\<close>, and it is the earliest record of the combined fetch stream that
  bears \<open>s\<close> and has no variant marker (none, if the stream has no such record).
\<close>

theorem collector_keeps_first_unmarked:
  assumes "fetch_all_cards net = Inr out"
  shows "(\<forall>r\<in>set out. \<not> card_set_id_is '''' r) \<and>
         (\<forall>s. s \<noteq> [] \<longrightarrow>
            length (filter (card_set_id_is s) out) \<le> 1 \<and>
            filter (card_set_id_is s) out =
              take 1 (filter (\<lambda>r. card_set_id_is s r \<and> \<not> has_marker r) (fetch_stream net)))"
proof -
  from assms obtain st where st: "add_all (fetch_stream net) \<lparr>all_raw = [], seen = []\<rparr> = Inr st"
    and out: "out = all_raw st"
    by (rule fetch_all_cards_Inr)
  have "\<not> card_set_id_is '''' r" if "r \<in> set out" for r
  proof -
    from add_all_members [OF st] that out
    obtain d where "r = JDict d" "truthy (dict_get d ''card_set_id'' (JStr ''''))"
      by auto
    then show ?thesis by (auto simp: card_set_id_is_def)
  qed
  moreover have "filter (card_set_id_is s) out =
      take 1 (filter (\<lambda>r. card_set_id_is s r \<and> \<not> has_marker r) (fetch_stream net))"
    if "s \<noteq> []" for s
    using add_all_bearers [OF st that] out by simp
  ultimately show ?thesis by simp
qed

theorem collector_keeps_first_unmarked_witness:
  "let first = JDict [(''card_set_id'', JStr ''OP01-001''), (''card_name'', JStr ''Luffy'')];
       blank = JDict [(''card_set_id'', JStr '''')];
       dup = JDict [(''card_set_id'', JStr ''OP01-001''), (''card_name'', JStr ''Luffy-dup'')];
       net = bulk_sets_only [first, blank, dup]
   in fetch_all_cards net = Inr [first]
      \<and> fetch_stream net = [first, blank, dup]
      \<and> \<not> card_set_id_is '''' first
      \<and> filter (card_set_id_is ''OP01-001'') [first] = [first]
      \<and> take 1 (filter (\<lambda>r. card_set_id_is ''OP01-001'' r \<and> \<not> has_marker r)
                  [first, blank, dup]) = [first]"
  using collector_keeps_first_unmarked [of "bulk_sets_only
     [JDict [(''card_set_id'', JStr ''OP01-001''), (''card_name'', JStr ''Luffy'')],
      JDict [(''card_set_id'', JStr '''')],
      JDict [(''card_set_id'', JStr ''OP01-001''), (''card_name'', JStr ''Luffy-dup'')]]"
    "[JDict [(''card_set_id'', JStr ''OP01-001''), (''card_name'', JStr ''Luffy'')]]"]
  by (simp add: eval_values eval_fetch)

text \<open>
  Claim C2 as stated fails: the earliest record that bears \<^verbatim>\<open>"OP01-001"\<close> has the
  variant marker, and the record retained for the identifier is the second one.
\<close>

theorem earliest_record_marked_counterexample:
  "fetch_all_cards (bulk_sets_only
     [JDict [(''card_set_id'', JStr ''OP01-001''), (''card_image_id'', JStr ''OP01-001_p1'')],
      JDict [(''card_set_id'', JStr ''OP01-001''), (''card_image_id'', JStr ''OP01-001'')]])
   = Inr [JDict [(''card_set_id'', JStr ''OP01-001''), (''card_image_id'', JStr ''OP01-001'')]]
   \<and> fetch_stream (bulk_sets_only
     [JDict [(''card_set_id'', JStr ''OP01-001''), (''card_image_id'', JStr ''OP01-001_p1'')],
      JDict [(''card_set_id'', JStr ''OP01-001''), (''card_image_id'', JStr ''OP01-001'')]])
   = [JDict [(''card_set_id'', JStr ''OP01-001''), (''card_image_id'', JStr ''OP01-001_p1'')],
      JDict [(''card_set_id'', JStr ''OP01-001''), (''card_image_id'', JStr ''OP01-001'')]]
   \<and> card_set_id_is ''OP01-001''
       (JDict [(''card_set_id'', JStr ''OP01-001''), (''card_image_id'', JStr ''OP01-001_p1'')])
   \<and> JDict [(''card_set_id'', JStr ''OP01-001''), (''card_image_id'', JStr ''OP01-001_p1'')]
     \<noteq> JDict [(''card_set_id'', JStr ''OP01-001''), (''card_image_id'', JStr ''OP01-001'')]"
  by (simp add: eval_values eval_fetch)

text \<open>
  Claim C3. No record of the Collector's output has a \<^verbatim>\<open>card_image_id\<close> that is a
  string with the substring \<^verbatim>\<open>"_p"\<close>, whatever its identifier is.
\<close>

theorem marked_records_excluded:
  assumes "fetch_all_cards net = Inr out"
    and "JDict d \<in> set out"
    and "map_of d ''card_image_id'' = Some (JStr img)"
  shows "\<not> (\<exists>a b. img = a @ ''_p'' @ b)"
proof -
  from assms(1) obtain st where st: "add_all (fetch_stream net) \<lparr>all_raw = [], seen = []\<rparr> = Inr st"
    and out: "out = all_raw st"
    by (rule fetch_all_cards_Inr)
  from add_all_members [OF st] assms(2) out have "\<not> has_marker (JDict d)"
    by auto
  with assms(3) show ?thesis by (simp add: has_marker_substring)
qed

theorem marked_records_excluded_witness:
  "let marked = JDict [(''card_set_id'', JStr ''OP01-001''),
                       (''card_image_id'', JStr ''card_123_p1.png'')];
       plain = JDict [(''card_set_id'', JStr ''OP01-002''), (''card_image_id'', JStr ''OP01-002'')];
       net = bulk_sets_only [marked, plain]
   in fetch_stream net = [marked, plain]
      \<and> fetch_all_cards net = Inr [plain]
      \<and> map_of [(''card_set_id'', JStr ''OP01-002''), (''card_image_id'', JStr ''OP01-002'')]
           ''card_image_id'' = Some (JStr ''OP01-002'')
      \<and> \<not> (\<exists>a b. ''OP01-002'' = a @ ''_p'' @ b)
      \<and> (\<exists>a b. ''card_123_p1.png'' = a @ ''_p'' @ b)"
proof -
  have "is_substring ''_p'' ''card_123_p1.png''"
    by (simp add: starts_with_def)
  then have "\<exists>a b. ''card_123_p1.png'' = a @ ''_p'' @ b"
    by (simp only: is_substring_iff)
  with marked_records_excluded [of "bulk_sets_only
     [JDict [(''card_set_id'', JStr ''OP01-001''), (''card_image_id'', JStr ''card_123_p1.png'')],
      JDict [(''card_set_id'', JStr ''OP01-002''), (''card_image_id'', JStr ''OP01-002'')]]"
    "[JDict [(''card_set_id'', JStr ''OP01-002''), (''card_image_id'', JStr ''OP01-002'')]]"
    "[(''card_set_id'', JStr ''OP01-002''), (''card_image_id'', JStr ''OP01-002'')]"
    "''OP01-002''"]
  show ?thesis
    by (simp add: eval_values eval_fetch)
qed

text \<open>
  Claim C9, as amended. A record with the variant marker leaves the Collector's state as
  it is: its \<^verbatim>\<open>card_set_id\<close> does not enter \<^verbatim>\<open>seen\<close>. And when such a record, bearing
  the non-empty identifier \<open>s\<close>, stands in the combined fetch stream before a marker-free
  record \<open>c\<close> that bears \<open>s\<close>, and every record before \<open>c\<close> that bears \<open>s\<close> has the marker,
  then \<open>c\<close> is collected: it is the one record of the output that bears \<open>s\<close>.
\<close>

theorem marked_record_leaves_seen:
  assumes "fetch_all_cards net = Inr out"
    and "fetch_stream net = pre @ c # post"
    and "a \<in> set pre" and "has_marker a" and "card_set_id_is s a"
    and "s \<noteq> []" and "card_set_id_is s c" and "\<not> has_marker c"
    and "\<forall>r\<in>set pre. card_set_id_is s r \<longrightarrow> has_marker r"
  shows "(\<forall>st. add_card a st = Inr (False, st)) \<and> filter (card_set_id_is s) out = [c]"
proof -
  from assms(1) obtain st where st: "add_all (fetch_stream net) \<lparr>all_raw = [], seen = []\<rparr> = Inr st"
    and out: "out = all_raw st"
    by (rule fetch_all_cards_Inr)
  from assms(9) have "filter (\<lambda>r. card_set_id_is s r \<and> \<not> has_marker r) pre = []"
    by (auto simp: filter_empty_conv)
  with assms(2,7,8) have
    "take 1 (filter (\<lambda>r. card_set_id_is s r \<and> \<not> has_marker r) (fetch_stream net)) = [c]"
    by simp
  with add_all_bearers [OF st assms(6)] out have "filter (card_set_id_is s) out = [c]"
    by simp
  moreover from assms(4) have "\<forall>st. add_card a st = Inr (False, st)"
    by (simp add: add_card_marked)
  ultimately show ?thesis by simp
qed

theorem marked_record_leaves_seen_witness:
  "let marked = JDict [(''card_set_id'', JStr ''OP01-001''),
                       (''card_image_id'', JStr ''OP01-001_p1'')];
       plain = JDict [(''card_set_id'', JStr ''OP01-001''), (''card_image_id'', JStr ''OP01-001'')];
       net = bulk_sets_only [marked, plain]
   in fetch_all_cards net = Inr [plain]
      \<and> fetch_stream net = [marked] @ plain # []
      \<and> has_marker marked \<and> card_set_id_is ''OP01-001'' marked
      \<and> card_set_id_is ''OP01-001'' plain \<and> \<not> has_marker plain
      \<and> (\<forall>st. add_card marked st = Inr (False, st))
      \<and> filter (card_set_id_is ''OP01-001'') [plain] = [plain]"
  using marked_record_leaves_seen [of "bulk_sets_only
     [JDict [(''card_set_id'', JStr ''OP01-001''), (''card_image_id'', JStr ''OP01-001_p1'')],
      JDict [(''card_set_id'', JStr ''OP01-001''), (''card_image_id'', JStr ''OP01-001'')]]"
    "[JDict [(''card_set_id'', JStr ''OP01-001''), (''card_image_id'', JStr ''OP01-001'')]]"
    "[JDict [(''card_set_id'', JStr ''OP01-001''), (''card_image_id'', JStr ''OP01-001_p1'')]]"
    "JDict [(''card_set_id'', JStr ''OP01-001''), (''card_image_id'', JStr ''OP01-001'')]"
    "[]"
    "JDict [(''card_set_id'', JStr ''OP01-001''), (''card_image_id'', JStr ''OP01-001_p1'')]"
    "''OP01-001''"]
  by (simp add: eval_values eval_fetch)

text \<open>
  Claim C9 as stated fails: the marked record stands before the marker-free record named
  \<^verbatim>\<open>"later"\<close>, which bears the same identifier, and that record is not collected,
  because the record named \<^verbatim>\<open>"first"\<close> was.
\<close>

theorem later_record_not_collected_counterexample:
  "fetch_all_cards (bulk_sets_only
     [JDict [(''card_set_id'', JStr ''OP01-001''), (''card_name'', JStr ''first'')],
      JDict [(''card_set_id'', JStr ''OP01-001''), (''card_image_id'', JStr ''OP01-001_p1'')],
      JDict [(''card_set_id'', JStr ''OP01-001''), (''card_name'', JStr ''later'')]])
   = Inr [JDict [(''card_set_id'', JStr ''OP01-001''), (''card_name'', JStr ''first'')]]
   \<and> fetch_stream (bulk_sets_only
     [JDict [(''card_set_id'', JStr ''OP01-001''), (''card_name'', JStr ''first'')],
      JDict [(''card_set_id'', JStr ''OP01-001''), (''card_image_id'', JStr ''OP01-001_p1'')],
      JDict [(''card_set_id'', JStr ''OP01-001''), (''card_name'', JStr ''later'')]])
   = [JDict [(''card_set_id'', JStr ''OP01-001''), (''card_name'', JStr ''first'')],
      JDict [(''card_set_id'', JStr ''OP01-001''), (''card_image_id'', JStr ''OP01-001_p1'')],
      JDict [(''card_set_id'', JStr ''OP01-001''), (''card_name'', JStr ''later'')]]
   \<and> has_marker
       (JDict [(''card_set_id'', JStr ''OP01-001''), (''card_image_id'', JStr ''OP01-001_p1'')])
   \<and> card_set_id_is ''OP01-001''
       (JDict [(''card_set_id'', JStr ''OP01-001''), (''card_image_id'', JStr ''OP01-001_p1'')])
   \<and> \<not> has_marker (JDict [(''card_set_id'', JStr ''OP01-001''), (''card_name'', JStr ''later'')])
   \<and> card_set_id_is ''OP01-001''
       (JDict [(''card_set_id'', JStr ''OP01-001''), (''card_name'', JStr ''later'')])
   \<and> JDict [(''card_set_id'', JStr ''OP01-001''), (''card_name'', JStr ''later'')]
     \<notin> set [JDict [(''card_set_id'', JStr ''OP01-001''), (''card_name'', JStr ''first'')]]"
  by (simp add: eval_values eval_fetch)

section \<open>The whole run\<close>

text \<open>When \<^verbatim>\<open>main\<close> ends with status 0, and when with \<^verbatim>\<open>sys.exit(1)\<close>.\<close>

lemma main_exit_zero:
  "exit_status (main net) = 0 \<longleftrightarrow>
     (\<exists>raw_cards sorted_cards card_list printed.
        fetch_all_cards net = Inr raw_cards \<and> raw_cards \<noteq> [] \<and>
        sort_cards raw_cards = Inr sorted_cards \<and>
        convert_to_tcg_arena sorted_cards = Inr card_list \<and>
        summary card_list = Inr printed)"
  by (auto simp: main_def split: sum.splits)

lemma main_no_cards: "fetch_all_cards net = Inr [] \<Longrightarrow> main net = Exit 1 None"
  by (simp add: main_def)

text \<open>
  Claim C6. The bulk endpoint of the sets sends the two records of the scenario. The
  Collector keeps the first; the Transformer makes one entry of it, under the key
  \<^verbatim>\<open>"OP01-001"\<close>, with the name \<^verbatim>\<open>"Luffy"\<close> and the cost 0; the run writes that mapping
  and ends with status 0.
\<close>

theorem end_to_end_luffy:
  "fetch_all_cards (bulk_sets_only
     [JDict [(''card_set_id'', JStr ''OP01-001''), (''card_name'', JStr ''Luffy''),
             (''card_type'', JStr ''Leader''), (''card_cost'', JNull)],
      JDict [(''card_set_id'', JStr ''OP01-001''), (''card_name'', JStr ''Luffy-dup'')]])
   = Inr [JDict [(''card_set_id'', JStr ''OP01-001''), (''card_name'', JStr ''Luffy''),
                 (''card_type'', JStr ''Leader''), (''card_cost'', JNull)]]
   \<and> convert_to_tcg_arena
       [JDict [(''card_set_id'', JStr ''OP01-001''), (''card_name'', JStr ''Luffy''),
               (''card_type'', JStr ''Leader''), (''card_cost'', JNull)]]
     = Inr [(JStr ''OP01-001'',
         \<lparr>tcg_id = JStr ''OP01-001'', tcg_name = JStr ''Luffy'', tcg_type = JStr ''Leader'',
          tcg_face_front =
            \<lparr>front_name = JStr ''Luffy'', front_type = JStr ''Leader'', front_cost = 0,
             front_isHorizontal = False, front_image = JStr ''''\<rparr>,
          tcg_Color = JStr '''', tcg_cost = 0, tcg_isHorizontal = False,
          tcg_Cost = ''0'', tcg_Power = ''0'', tcg_Counter = ''0'', tcg_Life = ''0'',
          tcg_Attribute = JStr '''', tcg_Subtypes = JStr '''', tcg_Text = JStr '''',
          tcg_Rarity = JStr '''', tcg_Set = JStr ''OP01''\<rparr>)]
   \<and> main (bulk_sets_only
       [JDict [(''card_set_id'', JStr ''OP01-001''), (''card_name'', JStr ''Luffy''),
               (''card_type'', JStr ''Leader''), (''card_cost'', JNull)],
        JDict [(''card_set_id'', JStr ''OP01-001''), (''card_name'', JStr ''Luffy-dup'')]])
     = Exit 0 (Some [(JStr ''OP01-001'',
         \<lparr>tcg_id = JStr ''OP01-001'', tcg_name = JStr ''Luffy'', tcg_type = JStr ''Leader'',
          tcg_face_front =
            \<lparr>front_name = JStr ''Luffy'', front_type = JStr ''Leader'', front_cost = 0,
             front_isHorizontal = False, front_image = JStr ''''\<rparr>,
          tcg_Color = JStr '''', tcg_cost = 0, tcg_isHorizontal = False,
          tcg_Cost = ''0'', tcg_Power = ''0'', tcg_Counter = ''0'', tcg_Life = ''0'',
          tcg_Attribute = JStr '''', tcg_Subtypes = JStr '''', tcg_Text = JStr '''',
          tcg_Rarity = JStr '''', tcg_Set = JStr ''OP01''\<rparr>)])"
  by (simp add: eval_values eval_fetch eval_convert eval_main)

text \<open>
  Claim C8 does not hold of the code. The bulk endpoint of the sets sends one record whose
  \<^verbatim>\<open>card_cost\<close> is an infinite float. The Collector returns that record, so the claim
  promises the status 0; but \<^verbatim>\<open>int(card_cost)\<close> raises \<^verbatim>\<open>OverflowError\<close>, which
  \<^verbatim>\<open>except (ValueError, TypeError)\<close> does not catch, nothing is written, and the
  process ends with status 1.
\<close>

theorem infinite_cost_exit_status:
  "fetch_all_cards (bulk_sets_only
     [JDict [(''card_set_id'', JStr ''OP01-001''), (''card_cost'', JFloat PosInf)]])
   = Inr [JDict [(''card_set_id'', JStr ''OP01-001''), (''card_cost'', JFloat PosInf)]]
   \<and> main (bulk_sets_only
       [JDict [(''card_set_id'', JStr ''OP01-001''), (''card_cost'', JFloat PosInf)]])
     = Uncaught OverflowError None
   \<and> exit_status (main (bulk_sets_only
       [JDict [(''card_set_id'', JStr ''OP01-001''), (''card_cost'', JFloat PosInf)]])) = 1"
  by (simp add: eval_values eval_fetch eval_convert eval_main)

text \<open>
  The summary can end the run the same way, after the file is written: a \<^verbatim>\<open>card_type\<close>
  of \<^verbatim>\<open>null\<close> beside a string makes \<^verbatim>\<open>sorted(type_counts.items())\<close> compare
  \<^verbatim>\<open>None\<close> with a \<^verbatim>\<open>str\<close>.
\<close>

lemma null_type_exit_status:
  "exit_status (main (bulk_sets_only
     [JDict [(''card_set_id'', JStr ''OP01-001''), (''card_type'', JNull)],
      JDict [(''card_set_id'', JStr ''OP01-002''), (''card_type'', JStr ''Leader'')]])) = 1
   \<and> written_file (main (bulk_sets_only
     [JDict [(''card_set_id'', JStr ''OP01-001''), (''card_type'', JNull)],
      JDict [(''card_set_id'', JStr ''OP01-002''), (''card_type'', JStr ''Leader'')]])) =
     Some [(JStr ''OP01-001'',
            (bare_entry ''OP01-001'' ''OP01'')
              \<lparr>tcg_type := JNull,
               tcg_face_front :=
                 \<lparr>front_name = JStr ''Unknown'', front_type = JNull, front_cost = 0,
                  front_isHorizontal = False, front_image = JStr ''''\<rparr>\<rparr>),
           (JStr ''OP01-002'',
            (bare_entry ''OP01-002'' ''OP01'')
              \<lparr>tcg_type := JStr ''Leader'',
               tcg_face_front :=
                 \<lparr>front_name = JStr ''Unknown'', front_type = JStr ''Leader'', front_cost = 0,
                  front_isHorizontal = False, front_image = JStr ''''\<rparr>\<rparr>)]"
  by (simp add: eval_values eval_fetch eval_convert eval_main)

end
